theory Spec2Isabelle
  imports Main "HOL-Library.Multiset"
begin

section \<open>JavaScript string primitives used by the scripts\<close>

text \<open>
  Strings are character lists. The three methods below are the ones \<^verbatim>\<open>claim.js\<close>
  calls on a proof entry: \<^verbatim>\<open>p.startsWith('0x')\<close>, \<^verbatim>\<open>p.slice(2)\<close> and
  \<^verbatim>\<open>hexValue.padStart(64, '0')\<close>. \<^verbatim>\<open>padStart\<close> never shortens: a string that is
  already as long as the target comes back unchanged.
\<close>

definition startsWith :: "string \<Rightarrow> string \<Rightarrow> bool" where
  "startsWith s p = (take (length p) s = p)"

definition slice :: "string \<Rightarrow> nat \<Rightarrow> string" where
  "slice s n = drop n s"

definition padStart :: "string \<Rightarrow> nat \<Rightarrow> char \<Rightarrow> string" where
  "padStart s n c = (if n \<le> length s then s else replicate (n - length s) c @ s)"

section \<open>Proof normalisation in \<^verbatim>\<open>buildClaimTx\<close> (claim.js, lines 30-36)\<close>

text \<open>
  The arrow function mapped over the proof array:
  \<^verbatim>\<open>p => { const hexValue = p.startsWith('0x') ? p.slice(2) : p;
          const paddedHex = hexValue.padStart(64, '0');
          return `0x${paddedHex}`; }\<close>
\<close>

definition hexValue :: "string \<Rightarrow> string" where
  "hexValue p = (if startsWith p ''0x'' then slice p 2 else p)"

definition formatProofEntry :: "string \<Rightarrow> string" where
  "formatProofEntry p = (let paddedHex = padStart (hexValue p) 64 (CHR ''0'') in ''0x'' @ paddedHex)"

definition isHexDigit :: "char \<Rightarrow> bool" where
  "isHexDigit c = (c \<in> set ''0123456789abcdefABCDEF'')"

text \<open>An entry in normal form: \<^verbatim>\<open>0x\<close> followed by exactly 64 hexadecimal digits.\<close>

definition normalizedEntry :: "string \<Rightarrow> bool" where
  "normalizedEntry p = (startsWith p ''0x'' \<and> length p = 66 \<and> list_all isHexDigit (slice p 2))"

section \<open>Thrown values\<close>

text \<open>
  Every \<^verbatim>\<open>throw\<close>, rejected promise and library exception of the scripts is a value of
  this type, and a function that can throw returns \<open>error + 'a\<close> with \<open>Inl\<close> for the
  thrown value. \<open>RequestError st\<close> is a rejection of \<^verbatim>\<open>requestManager.simpleRequest\<close>
  whose \<^verbatim>\<open>error.response?.status\<close> is \<open>st\<close> (\<open>None\<close> when the error carries no
  response). \<open>CodeError c\<close> is the \<^verbatim>\<open>new Error(...)\<close> the retry loop throws itself for a
  response whose code is \<open>c\<close>; it has no \<^verbatim>\<open>response\<close> property.
  \<open>ThrownUndefined\<close> is a thrown \<^verbatim>\<open>undefined\<close> or \<^verbatim>\<open>null\<close>: the value of
  \<^verbatim>\<open>throw lastError\<close> when no attempt was made, and of a promise rejected with no
  reason. Reading a property of it (\<^verbatim>\<open>error.response\<close>, \<^verbatim>\<open>error.message\<close>,
  \<^verbatim>\<open>error.shortMessage\<close>) throws a TypeError; of every other thrown value the property
  can be read.
\<close>

datatype error =
    RequestError "nat option"
  | CodeError int
  | LibraryError
  | TypeError
  | SyntaxError
  | NumericFault
  | InvalidArgument
  | ThrownUndefined

fun responseStatus :: "error \<Rightarrow> nat option" where
  "responseStatus (RequestError st) = st"
| "responseStatus _ = None"

fun nullish :: "error \<Rightarrow> bool" where
  "nullish ThrownUndefined = True"
| "nullish _ = False"

section \<open>BigInt and the ethers unit conversions\<close>

text \<open>
  \<^verbatim>\<open>BigInt(string)\<close> follows ECMAScript's StringToBigInt: surrounding white space is
  dropped, the empty string is \<open>0n\<close>, a \<^verbatim>\<open>0x\<close>, \<^verbatim>\<open>0o\<close> or \<^verbatim>\<open>0b\<close> prefix selects the
  base (no sign allowed then), otherwise an optional sign and decimal digits; anything
  else is a SyntaxError, here \<open>None\<close>. A character is a code unit below 256; the
  white space of the language among these is the space, the characters 9 to 13 and the
  no-break space 160.
\<close>

fun indexIn :: "'a list \<Rightarrow> 'a \<Rightarrow> nat option" where
  "indexIn [] c = None"
| "indexIn (x # xs) c = (if x = c then Some 0 else map_option Suc (indexIn xs c))"

definition digitOf :: "char \<Rightarrow> nat option" where
  "digitOf c =
     (case indexIn ''0123456789abcdef'' c of
        Some d \<Rightarrow> Some d
      | None \<Rightarrow> map_option (\<lambda>i. i + 10) (indexIn ''ABCDEF'' c))"

fun parseDigits :: "nat \<Rightarrow> string \<Rightarrow> int \<Rightarrow> int option" where
  "parseDigits b [] acc = Some acc"
| "parseDigits b (c # cs) acc =
     (case digitOf c of
        None \<Rightarrow> None
      | Some d \<Rightarrow> if d < b then parseDigits b cs (acc * int b + int d) else None)"

definition parseNat :: "nat \<Rightarrow> string \<Rightarrow> int option" where
  "parseNat b ds = (if ds = [] then None else parseDigits b ds 0)"

definition isWhiteSpace :: "char \<Rightarrow> bool" where
  "isWhiteSpace c =
     (c \<in> set [CHR '' '', CHR 0x09, CHR 0x0A, CHR 0x0B, CHR 0x0C, CHR 0x0D, CHR 0xA0])"

definition trim :: "string \<Rightarrow> string" where
  "trim s = rev (dropWhile isWhiteSpace (rev (dropWhile isWhiteSpace s)))"

definition BigInt :: "string \<Rightarrow> int option" where
  "BigInt s =
     (let t = trim s in
      if t = [] then Some 0
      else if startsWith t ''0x'' \<or> startsWith t ''0X'' then parseNat 16 (slice t 2)
      else if startsWith t ''0o'' \<or> startsWith t ''0O'' then parseNat 8 (slice t 2)
      else if startsWith t ''0b'' \<or> startsWith t ''0B'' then parseNat 2 (slice t 2)
      else if startsWith t ''-'' then map_option uminus (parseNat 10 (slice t 1))
      else if startsWith t ''+'' then parseNat 10 (slice t 1)
      else parseNat 10 t)"

text \<open>
  \<^verbatim>\<open>bigint.toString()\<close>: decimal digits, a minus sign for a negative value.
  \<open>natToString\<close> is called on values that are not negative.
\<close>

function natToString :: "int \<Rightarrow> string" where
  "natToString n =
     (if n < 10 then [''0123456789'' ! nat n]
      else natToString (n div 10) @ [''0123456789'' ! nat (n mod 10)])"
  by pat_completeness auto
termination
  by (relation "measure nat") auto

declare natToString.simps [simp del]

definition bigintToString :: "int \<Rightarrow> string" where
  "bigintToString i = (if i < 0 then ''-'' @ natToString (- i) else natToString i)"

text \<open>
  Modelled from the spec: \<^verbatim>\<open>ethers.formatEther\<close> is a function of the ethers library,
  which is not among the sources. The spec has it format base units as a decimal string
  with 18-decimal scaling, \<^verbatim>\<open>1000000000000000000\<close> as \<^verbatim>\<open>1.0\<close>. The digits follow
  \<^verbatim>\<open>formatUnits(wei, 18)\<close> of ethers version 6 (the version whose
  \<^verbatim>\<open>ethers.JsonRpcProvider\<close> and \<^verbatim>\<open>ethers.parseUnits\<close> the scripts call): the value is
  written as a fixed-point number, the digits padded on the left until there is a whole
  digit, the point inserted, leading zeros of the whole part and trailing zeros of the
  fraction dropped, leaving one digit on each side of the point; a value outside the
  signed 512-bit range is a numeric fault.
\<close>

definition trimWhole :: "string \<Rightarrow> string" where
  "trimWhole w = (let t = dropWhile (\<lambda>c. c = CHR ''0'') w in if t = [] then ''0'' else t)"

definition trimFraction :: "string \<Rightarrow> string" where
  "trimFraction f =
     (let t = rev (dropWhile (\<lambda>c. c = CHR ''0'') (rev f)) in if t = [] then ''0'' else t)"

definition fixedToString :: "int \<Rightarrow> nat \<Rightarrow> string" where
  "fixedToString val decimals =
     (if decimals = 0 then bigintToString val
      else
        let negative = (if val < 0 then ''-'' else []);
            str = padStart (natToString \<bar>val\<bar>) (decimals + 1) (CHR ''0'');
            index = length str - decimals
        in negative @ trimWhole (take index str) @ ''.'' @ trimFraction (drop index str))"

definition formatUnits :: "int \<Rightarrow> nat \<Rightarrow> error + string" where
  "formatUnits val decimals =
     (if val < - (2 ^ 511) \<or> 2 ^ 511 \<le> val then Inl NumericFault
      else Inr (fixedToString val decimals))"

definition formatEther :: "int \<Rightarrow> error + string" where
  "formatEther wei = formatUnits wei 18"

text \<open>
  Modelled from the spec: \<^verbatim>\<open>ethers.parseUnits\<close> is a function of the ethers library,
  which is not among the sources. The spec has the gas price be 1.02 gwei. The parsing
  follows ethers version 6: the unit name gives the number of decimals, the value must
  match \<^verbatim>\<open>^(-?)([0-9]*)\.?([0-9]*)$\<close> with at least one digit, and fraction digits
  beyond the unit's decimals must be zeros.
\<close>

definition unitDecimals :: "string \<Rightarrow> nat option" where
  "unitDecimals u =
     map_option (\<lambda>i. 3 * i)
       (indexIn [''wei'', ''kwei'', ''mwei'', ''gwei'', ''szabo'', ''finney'', ''ether''] u)"

definition isDecimalDigit :: "char \<Rightarrow> bool" where
  "isDecimalDigit c = (c \<in> set ''0123456789'')"

definition parseFixed :: "string \<Rightarrow> nat \<Rightarrow> error + int" where
  "parseFixed v decimals =
     (let neg = startsWith v ''-'';
          body = (if neg then slice v 1 else v);
          whole = takeWhile isDecimalDigit body;
          rest = dropWhile isDecimalDigit body;
          frac = (if startsWith rest ''.'' then slice rest 1 else rest)
      in if length whole + length frac = 0 then Inl InvalidArgument
         else if list_all isDecimalDigit frac then
           (if list_all (\<lambda>c. c = CHR ''0'') (drop decimals frac) then
              (case parseDigits 10
                      (whole @ take decimals frac @ replicate (decimals - length frac) (CHR ''0'')) 0 of
                 None \<Rightarrow> Inl InvalidArgument
               | Some n \<Rightarrow> Inr (if neg then - n else n))
            else Inl NumericFault)
         else Inl InvalidArgument)"

definition parseUnits :: "string \<Rightarrow> string \<Rightarrow> error + int" where
  "parseUnits v u =
     (case unitDecimals u of None \<Rightarrow> Inl InvalidArgument | Some d \<Rightarrow> parseFixed v d)"

section \<open>\<^verbatim>\<open>formatTokenAmount\<close> (claim.js lines 75-84, check.js lines 18-27)\<close>

text \<open>
  The amount of an eligibility response is a string of base units or absent
  (\<open>None\<close> stands for \<^verbatim>\<open>undefined\<close> and \<^verbatim>\<open>null\<close>). \<^verbatim>\<open>!amount\<close> holds for an absent
  amount and for the empty string; the string \<^verbatim>\<open>"0"\<close> is not empty, so it is truthy.
  \<^verbatim>\<open>
  formatTokenAmount(amount) {
      if (!amount) return '0';
      try { const amountBN = BigInt(amount); return ethers.formatEther(amountBN); }
      catch (error) { console.error(...); return '0'; }
  }\<close>
\<close>

definition formatTokenAmount :: "string option \<Rightarrow> string" where
  "formatTokenAmount amount =
     (case amount of
        None \<Rightarrow> ''0''
      | Some s \<Rightarrow>
          if s = [] then ''0''
          else
            (case BigInt s of
               None \<Rightarrow> ''0''
             | Some amountBN \<Rightarrow>
                 (case formatEther amountBN of Inl e \<Rightarrow> ''0'' | Inr r \<Rightarrow> r)))"

section \<open>The data the scripts handle\<close>

text \<open>
  A row of \<^verbatim>\<open>wallet.csv\<close>, with the column names the scripts read
  (\<^verbatim>\<open>walletData.add\<close>, \<^verbatim>\<open>walletData.pk\<close>, \<^verbatim>\<open>walletData.proxy\<close>).
\<close>

record walletData =
  add :: string
  pk :: string
  proxy :: string

text \<open>
  The JSON body of the eligibility endpoint. \<open>dataAmount\<close> is \<^verbatim>\<open>response.data.amount\<close>.
  \<open>dataProof\<close> is the outcome of \<^verbatim>\<open>JSON.parse(response.data.proof)\<close>: the thrown error,
  or the parsed value, of which only arrays and strings are told apart from the rest.
  \<open>data = None\<close> is a response whose \<^verbatim>\<open>data\<close> is absent, so that \<^verbatim>\<open>response?.data\<close> is
  falsy.
\<close>

datatype json = JString string | JArray "json list" | JOther

record eligibilityData =
  dataAmount :: "string option"
  dataProof :: "error + json"

record response =
  code :: int
  data :: "eligibilityData option"

text \<open>One call of \<^verbatim>\<open>requestManager.simpleRequest\<close>: the promise resolves or rejects.\<close>

datatype attempt = Responds response | Rejects error

text \<open>
  A transaction request: what \<^verbatim>\<open>populateTransaction\<close> returns, and the three fields
  \<^verbatim>\<open>sendTransaction\<close> overrides (\<^verbatim>\<open>gasLimit\<close>, \<^verbatim>\<open>gasPrice\<close>, \<^verbatim>\<open>type\<close>).
\<close>

record txData =
  to :: string
  calldata :: string
  gasLimit :: "int option"
  gasPrice :: "int option"
  txType :: "int option"

text \<open>
  \<^verbatim>\<open>txResponse.wait()\<close> rejects, or resolves to a receipt or to \<^verbatim>\<open>null\<close>;
  \<^verbatim>\<open>receipt.status\<close> is a number or \<^verbatim>\<open>null\<close>.
\<close>

record receipt =
  receiptStatus :: "int option"

record txResponse =
  hash :: string
  wait :: "error + receipt option"

text \<open>
  What the outside world does for one wallet. \<^verbatim>\<open>RequestManager\<close> is imported from
  \<^verbatim>\<open>../http.js\<close>, which is not among the sources, and the wallet, the contract and the
  provider are objects of the ethers library; what they do is a parameter of the model:
  the constructors of the request manager and of the ethers wallet (called before the
  \<^verbatim>\<open>try\<close> of \<^verbatim>\<open>processWallet\<close>), the signer, the eligibility endpoint (the outcome of
  the k-th call, counted from 0), the contract constructor,
  \<^verbatim>\<open>contract.claim.populateTransaction\<close> and \<^verbatim>\<open>wallet.sendTransaction\<close>.
\<close>

record collaborators =
  new_RequestManager :: "error + unit"
  new_Wallet :: "error + unit"
  signMessage :: "error + string"
  simpleRequest :: "nat \<Rightarrow> attempt"
  new_Contract :: "error + unit"
  populateTransaction :: "int \<Rightarrow> string list \<Rightarrow> error + txData"
  wallet_sendTransaction :: "txData \<Rightarrow> error + txResponse"

text \<open>
  The effects a pipeline has on the outside world, in order: the k-th eligibility request
  (with its timeout option), a \<^verbatim>\<open>this.delay(ms)\<close>, and a transaction handed to
  \<^verbatim>\<open>wallet.sendTransaction\<close>.
\<close>

datatype event = Request nat "nat option" | Delay nat | SendTransaction txData

text \<open>
  An element of \<^verbatim>\<open>this.results\<close>. The claim script pushes
  \<^verbatim>\<open>{address, amount, status}\<close>, the check script \<^verbatim>\<open>{address, amount}\<close>: there
  \<open>status\<close> is \<open>None\<close>.
\<close>

record outcome =
  address :: string
  amount :: string
  status :: "string option"

text \<open>The fields of \<^verbatim>\<open>MindAgent\<close> that change or steer the control flow, and its constructor.\<close>

record MindAgent =
  successCount :: nat
  failCount :: nat
  results :: "outcome list"
  totalAmount :: int
  maxRetries :: nat

definition newMindAgent :: MindAgent where
  "newMindAgent =
     \<lparr>successCount = 0, failCount = 0, results = [], totalAmount = 0, maxRetries = 5\<rparr>"

section \<open>\<^verbatim>\<open>checkEligibilityWithRetry\<close> (claim.js lines 114-164, check.js lines 57-106)\<close>

text \<open>
  The body of the \<^verbatim>\<open>try\<close>: the awaited request, the test \<^verbatim>\<open>response.code === 0\<close>, and the
  \<^verbatim>\<open>throw new Error(...)\<close> for every other code.
\<close>

fun attemptResult :: "attempt \<Rightarrow> error + response" where
  "attemptResult (Responds r) = (if code r = 0 then Inr r else Inl (CodeError (code r)))"
| "attemptResult (Rejects e) = Inl e"

text \<open>
  The \<^verbatim>\<open>while (retryCount < this.maxRetries)\<close> loop with its two variables. The \<^verbatim>\<open>catch\<close>
  stores the error, increments \<^verbatim>\<open>retryCount\<close>, and reads \<^verbatim>\<open>error.response?.status\<close>:
  for a thrown \<^verbatim>\<open>undefined\<close> or \<^verbatim>\<open>null\<close> that read throws a TypeError inside the
  \<^verbatim>\<open>catch\<close>, which leaves the function. Otherwise: for status 429 it waits
  \<^verbatim>\<open>5000 + retryCount * 2000\<close> and continues, whatever \<^verbatim>\<open>retryCount\<close> is; otherwise it
  waits \<^verbatim>\<open>retryCount * 1000\<close> and continues only if \<^verbatim>\<open>retryCount < this.maxRetries\<close>.
  After the loop comes \<^verbatim>\<open>throw lastError\<close>. Each iteration makes one request, so the
  request of an iteration is number \<^verbatim>\<open>retryCount\<close>. The two scripts differ only in the
  \<^verbatim>\<open>timeout: 15000\<close> of the request, which is the parameter \<open>tmo\<close>.
\<close>

function retryLoop ::
  "nat \<Rightarrow> nat option \<Rightarrow> (nat \<Rightarrow> attempt) \<Rightarrow> nat \<Rightarrow> error option \<Rightarrow> event list
    \<Rightarrow> (error + response) \<times> event list" where
  "retryLoop maxR tmo req retryCount lastError tr =
     (if retryCount < maxR then
        (case attemptResult (req retryCount) of
           Inr r \<Rightarrow> (Inr r, tr @ [Request retryCount tmo])
         | Inl e \<Rightarrow>
             if nullish e then (Inl TypeError, tr @ [Request retryCount tmo])
             else if responseStatus e = Some 429 then
               retryLoop maxR tmo req (retryCount + 1) (Some e)
                 (tr @ [Request retryCount tmo, Delay (5000 + (retryCount + 1) * 2000)])
             else if retryCount + 1 < maxR then
               retryLoop maxR tmo req (retryCount + 1) (Some e)
                 (tr @ [Request retryCount tmo, Delay ((retryCount + 1) * 1000)])
             else
               retryLoop maxR tmo req (retryCount + 1) (Some e) (tr @ [Request retryCount tmo]))
      else
        (case lastError of
           None \<Rightarrow> (Inl ThrownUndefined, tr)
         | Some e \<Rightarrow> (Inl e, tr)))"
  by pat_completeness auto
termination
  by (relation "measure (\<lambda>(maxR, tmo, req, retryCount, lastError, tr). maxR - retryCount)") auto

declare retryLoop.simps [simp del]

definition checkEligibilityWithRetry ::
  "MindAgent \<Rightarrow> nat option \<Rightarrow> (nat \<Rightarrow> attempt) \<Rightarrow> (error + response) \<times> event list" where
  "checkEligibilityWithRetry agent tmo req = retryLoop (maxRetries agent) tmo req 0 None []"

section \<open>\<^verbatim>\<open>buildClaimTx\<close> and \<^verbatim>\<open>sendTransaction\<close> (claim.js lines 20-72)\<close>

text \<open>
  \<^verbatim>\<open>proof.map(p => ...)\<close>: a value that is not an array has no \<^verbatim>\<open>map\<close>, and an element
  that is not a string has no \<^verbatim>\<open>startsWith\<close>; both are TypeErrors.
\<close>

fun mapEntries :: "json list \<Rightarrow> error + string list" where
  "mapEntries [] = Inr []"
| "mapEntries (JString p # ps) =
     (case mapEntries ps of Inl e \<Rightarrow> Inl e | Inr fs \<Rightarrow> Inr (formatProofEntry p # fs))"
| "mapEntries (_ # ps) = Inl TypeError"

fun formattedProof :: "json \<Rightarrow> error + string list" where
  "formattedProof (JArray ps) = mapEntries ps"
| "formattedProof _ = Inl TypeError"

definition buildClaimTx :: "collaborators \<Rightarrow> string \<Rightarrow> json \<Rightarrow> error + txData" where
  "buildClaimTx env amt prf =
     (case new_Contract env of
        Inl e \<Rightarrow> Inl e
      | Inr _ \<Rightarrow>
          (case formattedProof prf of
             Inl e \<Rightarrow> Inl e
           | Inr fp \<Rightarrow>
               (case BigInt amt of
                  None \<Rightarrow> Inl SyntaxError
                | Some v \<Rightarrow> populateTransaction env v fp)))"

text \<open>
  \<^verbatim>\<open>sendTransaction\<close> spreads \<^verbatim>\<open>txData\<close> and overrides three fields, awaits the
  response and its receipt, and returns whether \<^verbatim>\<open>receipt.status === 1\<close>. Every error is
  caught, logged with \<^verbatim>\<open>error.shortMessage || error.message\<close> and thrown again; for a
  thrown \<^verbatim>\<open>undefined\<close> or \<^verbatim>\<open>null\<close> the log line itself throws a TypeError.
\<close>

definition logAndRethrow :: "error \<Rightarrow> error" where
  "logAndRethrow e = (if nullish e then TypeError else e)"

definition sendTransaction :: "collaborators \<Rightarrow> txData \<Rightarrow> (error + bool) \<times> event list" where
  "sendTransaction env txd =
     (case parseUnits ''1.02'' ''gwei'' of
        Inl e \<Rightarrow> (Inl (logAndRethrow e), [])
      | Inr price \<Rightarrow>
          let request = txd\<lparr>gasLimit := Some 160000, gasPrice := Some price, txType := Some 0\<rparr> in
          (case wallet_sendTransaction env request of
             Inl e \<Rightarrow> (Inl (logAndRethrow e), [SendTransaction request])
           | Inr txResponse \<Rightarrow>
               (case wait txResponse of
                  Inl e \<Rightarrow> (Inl (logAndRethrow e), [SendTransaction request])
                | Inr None \<Rightarrow> (Inl (logAndRethrow TypeError), [SendTransaction request])
                | Inr (Some rc) \<Rightarrow> (Inr (receiptStatus rc = Some 1), [SendTransaction request]))))"

section \<open>\<^verbatim>\<open>processWallet\<close>, claim script (claim.js lines 166-220)\<close>

definition pushResult :: "MindAgent \<Rightarrow> outcome \<Rightarrow> MindAgent" where
  "pushResult a r = a\<lparr>results := results a @ [r]\<rparr>"

definition incSuccess :: "MindAgent \<Rightarrow> MindAgent" where
  "incSuccess a = a\<lparr>successCount := successCount a + 1\<rparr>"

definition incFail :: "MindAgent \<Rightarrow> MindAgent" where
  "incFail a = a\<lparr>failCount := failCount a + 1\<rparr>"

text \<open>
  The test of line 177,
  \<^verbatim>\<open>!response?.data || !response.data.amount || response.data.amount === '0'\<close>,
  read from the other side: the data and the amount of a response that passes it.
\<close>

definition claimable :: "response \<Rightarrow> (eligibilityData \<times> string) option" where
  "claimable rsp =
     (case data rsp of
        None \<Rightarrow> None
      | Some d \<Rightarrow>
          (case dataAmount d of
             None \<Rightarrow> None
           | Some amt \<Rightarrow> if amt = [] then None else if amt = ''0'' then None else Some (d, amt)))"

text \<open>
  The \<^verbatim>\<open>try\<close> block of the claim script. The result is the thrown error or a normal
  end, the agent as the block left it, and the effects so far. The last statement,
  \<^verbatim>\<open>this.totalAmount += BigInt(response.data.amount)\<close>, comes after the push and the
  counter, and \<^verbatim>\<open>BigInt\<close> can throw there as anywhere.
\<close>

definition claimTry ::
  "collaborators \<Rightarrow> walletData \<Rightarrow> MindAgent \<Rightarrow> (error + unit) \<times> MindAgent \<times> event list" where
  "claimTry env w a =
     (case signMessage env of
        Inl e \<Rightarrow> (Inl e, a, [])
      | Inr signature \<Rightarrow>
          (case checkEligibilityWithRetry a (Some 15000) (simpleRequest env) of
             (Inl e, tr) \<Rightarrow> (Inl e, a, tr)
           | (Inr rsp, tr) \<Rightarrow>
               (case claimable rsp of
                  None \<Rightarrow>
                    (Inr (),
                     incFail (pushResult a
                       \<lparr>address = add w, amount = ''0'', status = Some ''no_eligibility''\<rparr>),
                     tr)
                | Some (d, amt) \<Rightarrow>
                    (case dataProof d of
                       Inl e \<Rightarrow> (Inl e, a, tr)
                     | Inr prf \<Rightarrow>
                         (case buildClaimTx env amt prf of
                            Inl e \<Rightarrow> (Inl e, a, tr)
                          | Inr txd \<Rightarrow>
                              (case sendTransaction env txd of
                                 (Inl e, tr2) \<Rightarrow> (Inl e, a, tr @ tr2)
                               | (Inr success, tr2) \<Rightarrow>
                                   let amountFormatted = formatTokenAmount (Some amt);
                                       a1 = pushResult a
                                         \<lparr>address = add w, amount = amountFormatted,
                                          status = Some (if success then ''success'' else ''failed'')\<rparr>;
                                       a2 = (if success then incSuccess a1 else incFail a1)
                                   in
                                   (case BigInt amt of
                                      None \<Rightarrow> (Inl SyntaxError, a2, tr @ tr2)
                                    | Some v \<Rightarrow>
                                        (Inr (), a2\<lparr>totalAmount := totalAmount a2 + v\<rparr>,
                                         tr @ tr2))))))))"

text \<open>
  \<^verbatim>\<open>processWallet\<close>: the two constructors stand before the \<^verbatim>\<open>try\<close>, so what they throw
  leaves the function; what the block throws is caught. The \<^verbatim>\<open>catch\<close> first logs
  \<^verbatim>\<open>error.message\<close>, which for a thrown \<^verbatim>\<open>undefined\<close> or \<^verbatim>\<open>null\<close> throws a TypeError
  that leaves the function before anything is pushed; otherwise it pushes the error
  record and increments \<^verbatim>\<open>failCount\<close>.
\<close>

definition processWallet_claim ::
  "collaborators \<Rightarrow> walletData \<Rightarrow> MindAgent \<Rightarrow> (error + unit) \<times> MindAgent \<times> event list" where
  "processWallet_claim env w a =
     (case new_RequestManager env of
        Inl e \<Rightarrow> (Inl e, a, [])
      | Inr _ \<Rightarrow>
          (case new_Wallet env of
             Inl e \<Rightarrow> (Inl e, a, [])
           | Inr _ \<Rightarrow>
               (case claimTry env w a of
                  (Inl e, a', tr) \<Rightarrow>
                    if nullish e then (Inl TypeError, a', tr)
                    else
                      (Inr (),
                       incFail (pushResult a'
                         \<lparr>address = add w, amount = ''0'', status = Some ''error''\<rparr>),
                       tr)
                | (Inr u, a', tr) \<Rightarrow> (Inr (), a', tr))))"

section \<open>\<^verbatim>\<open>processWallet\<close>, check script (check.js lines 108-151)\<close>

text \<open>
  The check script pushes the formatted amount as soon as the response has a
  \<^verbatim>\<open>data\<close>, then adds to the total
  \<^verbatim>\<open>if (response.data.amount && response.data.amount !== '0')\<close>, then counts a success.
  A response without \<^verbatim>\<open>data\<close> takes the \<^verbatim>\<open>else\<close>: amount \<^verbatim>\<open>'0'\<close> and a failure.
  The \<^verbatim>\<open>catch\<close> logs \<^verbatim>\<open>error.message || error\<close> before it pushes, as in the claim script.
\<close>

definition checkTry ::
  "collaborators \<Rightarrow> walletData \<Rightarrow> MindAgent \<Rightarrow> (error + unit) \<times> MindAgent \<times> event list" where
  "checkTry env w a =
     (case signMessage env of
        Inl e \<Rightarrow> (Inl e, a, [])
      | Inr signature \<Rightarrow>
          (case checkEligibilityWithRetry a None (simpleRequest env) of
             (Inl e, tr) \<Rightarrow> (Inl e, a, tr)
           | (Inr rsp, tr) \<Rightarrow>
               (case data rsp of
                  Some d \<Rightarrow>
                    let amt = formatTokenAmount (dataAmount d);
                        a1 = pushResult a \<lparr>address = add w, amount = amt, status = None\<rparr>
                    in
                    (case dataAmount d of
                       None \<Rightarrow> (Inr (), incSuccess a1, tr)
                     | Some s \<Rightarrow>
                         if s = [] then (Inr (), incSuccess a1, tr)
                         else if s = ''0'' then (Inr (), incSuccess a1, tr)
                         else
                           (case BigInt s of
                              None \<Rightarrow> (Inl SyntaxError, a1, tr)
                            | Some v \<Rightarrow>
                                (Inr (), incSuccess (a1\<lparr>totalAmount := totalAmount a1 + v\<rparr>), tr)))
                | None \<Rightarrow>
                    (Inr (),
                     incFail (pushResult a \<lparr>address = add w, amount = ''0'', status = None\<rparr>),
                     tr))))"

definition processWallet_check ::
  "collaborators \<Rightarrow> walletData \<Rightarrow> MindAgent \<Rightarrow> (error + unit) \<times> MindAgent \<times> event list" where
  "processWallet_check env w a =
     (case new_RequestManager env of
        Inl e \<Rightarrow> (Inl e, a, [])
      | Inr _ \<Rightarrow>
          (case new_Wallet env of
             Inl e \<Rightarrow> (Inl e, a, [])
           | Inr _ \<Rightarrow>
               (case checkTry env w a of
                  (Inl e, a', tr) \<Rightarrow>
                    if nullish e then (Inl TypeError, a', tr)
                    else
                      (Inr (),
                       incFail (pushResult a' \<lparr>address = add w, amount = ''0'', status = None\<rparr>),
                       tr)
                | (Inr u, a', tr) \<Rightarrow> (Inr (), a', tr))))"

section \<open>The task pool of \<^verbatim>\<open>processWallets\<close> (claim.js lines 236-293, check.js lines 167-224)\<close>

text \<open>
  JavaScript runs one task at a time and switches only at an \<^verbatim>\<open>await\<close>. A chain of
  \<^verbatim>\<open>processOne\<close> calls is at one of three places: awaiting \<^verbatim>\<open>processWallet\<close> for the
  wallet it took (\<open>Running i\<close>, the wallet's index), awaiting its cool-down delay
  (\<open>Cooling\<close>), or returned. \<^verbatim>\<open>processWallet\<close> changes the agent only in its last
  synchronous stretch, so its whole effect on the agent happens in one step, when it
  settles.
\<close>

datatype task = Running nat | Cooling | Returned

record pool =
  agent :: MindAgent
  currentIndex :: nat
  launched :: nat
  runningTasks :: "task list"

text \<open>
  The synchronous start of \<^verbatim>\<open>processOne\<close>: the test
  \<^verbatim>\<open>if (currentIndex >= wallets.length) return\<close> and \<^verbatim>\<open>wallets[currentIndex++]\<close>, with no
  \<^verbatim>\<open>await\<close> between them. The result is the new place of the chain and the new value of
  \<^verbatim>\<open>currentIndex\<close>; an index that a chain is \<open>Running\<close> on has passed the test, so it
  is within the list.
\<close>

definition processOne :: "walletData list \<Rightarrow> nat \<Rightarrow> task \<times> nat" where
  "processOne wallets idx =
     (if length wallets \<le> idx then (Returned, idx) else (Running idx, idx + 1))"

text \<open>
  What can happen next: the seeding loop launches its next task (\<open>Launch\<close>, possible
  while \<^verbatim>\<open>i < Math.min(concurrentLimit, wallets.length)\<close>); the \<^verbatim>\<open>processWallet\<close> of task
  \<open>j\<close> settles, by returning or by throwing, which \<^verbatim>\<open>processOne\<close> catches and logs
  (\<open>Settle j\<close>); the cool-down of task \<open>j\<close> ends and it takes the next wallet if
  \<^verbatim>\<open>currentIndex < wallets.length\<close> (\<open>Wake j\<close>). A move that is not possible gives
  \<open>None\<close>.
\<close>

datatype move = Launch | Settle nat | Wake nat

type_synonym pipeline =
  "collaborators \<Rightarrow> walletData \<Rightarrow> MindAgent \<Rightarrow> (error + unit) \<times> MindAgent \<times> event list"

fun poolStep ::
  "pipeline \<Rightarrow> (nat \<Rightarrow> collaborators) \<Rightarrow> walletData list \<Rightarrow> nat \<Rightarrow> move \<Rightarrow> pool \<Rightarrow> pool option" where
  "poolStep pw env wallets limit Launch p =
     (if launched p < min limit (length wallets) then
        (case processOne wallets (currentIndex p) of
           (t, idx) \<Rightarrow>
             Some (p\<lparr>currentIndex := idx, launched := launched p + 1,
                      runningTasks := runningTasks p @ [t]\<rparr>))
      else None)"
| "poolStep pw env wallets limit (Settle j) p =
     (if j < length (runningTasks p) then
        (case runningTasks p ! j of
           Running i \<Rightarrow>
             Some (p\<lparr>agent := fst (snd (pw (env i) (wallets ! i) (agent p))),
                      runningTasks := (runningTasks p)[j := Cooling]\<rparr>)
         | _ \<Rightarrow> None)
      else None)"
| "poolStep pw env wallets limit (Wake j) p =
     (if j < length (runningTasks p) then
        (case runningTasks p ! j of
           Cooling \<Rightarrow>
             if currentIndex p < length wallets then
               (case processOne wallets (currentIndex p) of
                  (t, idx) \<Rightarrow>
                    Some (p\<lparr>currentIndex := idx, runningTasks := (runningTasks p)[j := t]\<rparr>))
             else Some (p\<lparr>runningTasks := (runningTasks p)[j := Returned]\<rparr>)
         | _ \<Rightarrow> None)
      else None)"

fun poolRun ::
  "pipeline \<Rightarrow> (nat \<Rightarrow> collaborators) \<Rightarrow> walletData list \<Rightarrow> nat \<Rightarrow> move list \<Rightarrow> pool \<Rightarrow> pool option" where
  "poolRun pw env wallets limit [] p = Some p"
| "poolRun pw env wallets limit (m # ms) p =
     (case poolStep pw env wallets limit m p of
        None \<Rightarrow> None
      | Some p' \<Rightarrow> poolRun pw env wallets limit ms p')"

text \<open>
  \<^verbatim>\<open>await Promise.all([...runningTasks])\<close> is passed when the loop has launched all its
  tasks and every chain has returned.
\<close>

definition drained :: "walletData list \<Rightarrow> nat \<Rightarrow> pool \<Rightarrow> bool" where
  "drained wallets limit p =
     (launched p = min limit (length wallets) \<and> list_all (\<lambda>t. t = Returned) (runningTasks p))"

definition newPool :: "MindAgent \<Rightarrow> pool" where
  "newPool a = \<lparr>agent = a, currentIndex = 0, launched = 0, runningTasks = []\<rparr>"

text \<open>
  \<^verbatim>\<open>processWallets\<close> on a loaded wallet list, under a schedule: the agent when the pool
  has drained, \<open>None\<close> when the schedule is not a complete run.
\<close>

definition processWallets ::
  "pipeline \<Rightarrow> (nat \<Rightarrow> collaborators) \<Rightarrow> walletData list \<Rightarrow> nat \<Rightarrow> move list \<Rightarrow> MindAgent option" where
  "processWallets pw env wallets limit schedule =
     (case poolRun pw env wallets limit schedule (newPool newMindAgent) of
        None \<Rightarrow> None
      | Some p \<Rightarrow> if drained wallets limit p then Some (agent p) else None)"

section \<open>Vocabulary of the statements\<close>

text \<open>
  The number of eligibility requests in a sequence of effects; whether an attempt ends the
  retry loop (a response with code 0); and the error the \<^verbatim>\<open>catch\<close> of the loop sees for
  an attempt that does not.
\<close>

fun isRequest :: "event \<Rightarrow> bool" where
  "isRequest (Request k t) = True"
| "isRequest _ = False"

definition attempts :: "event list \<Rightarrow> nat" where
  "attempts tr = length (filter isRequest tr)"

definition succeeds :: "attempt \<Rightarrow> bool" where
  "succeeds at = (case at of Responds r \<Rightarrow> code r = 0 | Rejects e \<Rightarrow> False)"

fun failure :: "attempt \<Rightarrow> error" where
  "failure (Responds r) = CodeError (code r)"
| "failure (Rejects e) = e"

section \<open>Concrete inputs\<close>

text \<open>
  An endpoint that always answers 429, one that always answers 500, and one that fails
  twice (a 429, then a body with code 7) before it answers with code 0.
\<close>

definition rateLimited :: "nat \<Rightarrow> attempt" where
  "rateLimited k = Rejects (RequestError (Some 429))"

definition serverError :: "nat \<Rightarrow> attempt" where
  "serverError k = Rejects (RequestError (Some 500))"

definition okResponse :: response where
  "okResponse = \<lparr>code = 0, data = None\<rparr>"

definition twoFailuresThenOk :: "nat \<Rightarrow> attempt" where
  "twoFailuresThenOk k =
     (if k = 0 then Rejects (RequestError (Some 429))
      else if k = 1 then Responds \<lparr>code = 7, data = None\<rparr>
      else Responds okResponse)"

text \<open>
  The transactions handed to \<^verbatim>\<open>wallet.sendTransaction\<close> in a sequence of effects, and the
  request \<^verbatim>\<open>sendTransaction\<close> makes of a populated transaction.
\<close>

fun sentTransactions :: "event list \<Rightarrow> txData list" where
  "sentTransactions [] = []"
| "sentTransactions (SendTransaction rq # tr) = rq # sentTransactions tr"
| "sentTransactions (_ # tr) = sentTransactions tr"

definition claimRequest :: "txData \<Rightarrow> txData" where
  "claimRequest txd = txd\<lparr>gasLimit := Some 160000, gasPrice := Some 1020000000, txType := Some 0\<rparr>"

text \<open>
  Two wallet rows; a wallet for which everything works (one token claimable, the
  receipt has status 1); and variations of it in which one collaborator behaves
  differently.
\<close>

definition wallet1 :: walletData where
  "wallet1 = \<lparr>add = ''0x01'', pk = ''key1'', proxy = []\<rparr>"

definition wallet2 :: walletData where
  "wallet2 = \<lparr>add = ''0x02'', pk = ''key2'', proxy = []\<rparr>"

definition eligibleData :: eligibilityData where
  "eligibleData =
     \<lparr>dataAmount = Some ''1000000000000000000'', dataProof = Inr (JArray [JString ''abc''])\<rparr>"

definition eligibleResponse :: response where
  "eligibleResponse = \<lparr>code = 0, data = Some eligibleData\<rparr>"

definition claimTx :: txData where
  "claimTx =
     \<lparr>to = ''0xbdDE97f2B7cd2Ed7D4F3BB7D88E674cd9164B787'', calldata = ''0x'',
      gasLimit = None, gasPrice = None, txType = None\<rparr>"

definition minedResponse :: txResponse where
  "minedResponse = \<lparr>hash = ''0xh'', wait = Inr (Some \<lparr>receiptStatus = Some 1\<rparr>)\<rparr>"

definition revertedResponse :: txResponse where
  "revertedResponse = \<lparr>hash = ''0xh'', wait = Inr (Some \<lparr>receiptStatus = Some 0\<rparr>)\<rparr>"

definition rejectedResponse :: txResponse where
  "rejectedResponse = \<lparr>hash = ''0xh'', wait = Inl LibraryError\<rparr>"

definition eligibleWallet :: collaborators where
  "eligibleWallet =
     \<lparr>new_RequestManager = Inr (), new_Wallet = Inr (), signMessage = Inr ''0xsig'',
      simpleRequest = (\<lambda>k. Responds eligibleResponse), new_Contract = Inr (),
      populateTransaction = (\<lambda>v fp. Inr claimTx),
      wallet_sendTransaction = (\<lambda>rq. Inr minedResponse)\<rparr>"

definition noData :: collaborators where
  "noData = eligibleWallet\<lparr>simpleRequest := (\<lambda>k. Responds okResponse)\<rparr>"

definition zeroAmount :: collaborators where
  "zeroAmount = eligibleWallet
     \<lparr>simpleRequest :=
        (\<lambda>k. Responds \<lparr>code = 0, data = Some \<lparr>dataAmount = Some ''0'', dataProof = Inl SyntaxError\<rparr>\<rparr>)\<rparr>"

definition absentAmount :: collaborators where
  "absentAmount = eligibleWallet
     \<lparr>simpleRequest :=
        (\<lambda>k. Responds \<lparr>code = 0, data = Some \<lparr>dataAmount = None, dataProof = Inl SyntaxError\<rparr>\<rparr>)\<rparr>"

definition malformedAmount :: collaborators where
  "malformedAmount = eligibleWallet
     \<lparr>simpleRequest :=
        (\<lambda>k. Responds \<lparr>code = 0, data = Some \<lparr>dataAmount = Some ''1.5'', dataProof = Inl SyntaxError\<rparr>\<rparr>)\<rparr>"





definition receiptReverted :: collaborators where
  "receiptReverted = eligibleWallet\<lparr>wallet_sendTransaction := (\<lambda>rq. Inr revertedResponse)\<rparr>"

definition waitRejects :: collaborators where
  "waitRejects = eligibleWallet\<lparr>wallet_sendTransaction := (\<lambda>rq. Inr rejectedResponse)\<rparr>"

definition badKey :: collaborators where
  "badKey = eligibleWallet\<lparr>new_Wallet := Inl InvalidArgument\<rparr>"

text \<open>Two wallets of which the second has a private key the ethers wallet constructor rejects.\<close>

definition secondKeyBad :: "nat \<Rightarrow> collaborators" where
  "secondKeyBad i = (if i = 1 then badKey else noData)"

section \<open>Vocabulary of the pool invariant\<close>

text \<open>
  The wallets the pool's tasks are working on; whether both constructors at the head of
  \<^verbatim>\<open>processWallet\<close> succeed for a wallet; whether \<^verbatim>\<open>processWallet\<close> of the claim script
  returns for a wallet rather than throws, on an agent as the constructor of the class
  makes it; the addresses the claim script records for a multiset of settled wallets;
  the invariant of the pool, which splits the wallets below the cursor into those in
  flight and those settled; and a measure of the work left.
\<close>

fun runningIndices :: "task list \<Rightarrow> nat list" where
  "runningIndices [] = []"
| "runningIndices (Running i # ts) = i # runningIndices ts"
| "runningIndices (_ # ts) = runningIndices ts"

definition constructs :: "collaborators \<Rightarrow> bool" where
  "constructs env = (new_RequestManager env = Inr () \<and> new_Wallet env = Inr ())"

definition recorded :: "collaborators \<Rightarrow> walletData \<Rightarrow> bool" where
  "recorded env w = (fst (processWallet_claim env w newMindAgent) = Inr ())"

definition settledRecords ::
  "(nat \<Rightarrow> collaborators) \<Rightarrow> walletData list \<Rightarrow> nat multiset \<Rightarrow> string multiset" where
  "settledRecords env wallets settled =
     image_mset (\<lambda>i. add (wallets ! i)) (filter_mset (\<lambda>i. recorded (env i) (wallets ! i)) settled)"

definition poolInv ::
  "(nat \<Rightarrow> collaborators) \<Rightarrow> walletData list \<Rightarrow> nat \<Rightarrow> pool \<Rightarrow> nat multiset \<Rightarrow> bool" where
  "poolInv env wallets limit p settled =
     (currentIndex p \<le> length wallets
      \<and> launched p \<le> min limit (length wallets)
      \<and> length (runningTasks p) = launched p
      \<and> (Returned \<in> set (runningTasks p) \<longrightarrow> currentIndex p = length wallets)
      \<and> mset [0..<currentIndex p] = mset (runningIndices (runningTasks p)) + settled
      \<and> maxRetries (agent p) = 5
      \<and> mset (map address (results (agent p))) = settledRecords env wallets settled
      \<and> successCount (agent p) + failCount (agent p) = size (settledRecords env wallets settled))"

fun taskWork :: "task \<Rightarrow> nat" where
  "taskWork (Running i) = 2"
| "taskWork Cooling = 1"
| "taskWork Returned = 0"

definition poolWork :: "walletData list \<Rightarrow> nat \<Rightarrow> pool \<Rightarrow> nat" where
  "poolWork wallets limit p =
     3 * (length wallets - currentIndex p) + 3 * (min limit (length wallets) - launched p)
     + sum_list (map taskWork (runningTasks p))"

section \<open>Properties of the proof normalisation\<close>

lemma hexValue_0x [simp]: "hexValue (''0x'' @ h) = h"
  by (simp add: hexValue_def startsWith_def slice_def)

lemma padStart_long [simp]: "n \<le> length s \<Longrightarrow> padStart s n c = s"
  by (simp add: padStart_def)

lemma length_padStart: "length (padStart s n c) = max n (length s)"
  by (simp add: padStart_def)

lemma formatProofEntry_eq: "formatProofEntry p = ''0x'' @ padStart (hexValue p) 64 (CHR ''0'')"
  by (simp add: formatProofEntry_def)

lemma formatProofEntry_again: "formatProofEntry (formatProofEntry p) = formatProofEntry p"
proof -
  have "64 \<le> length (padStart (hexValue p) 64 (CHR ''0''))"
    by (simp add: length_padStart)
  then show ?thesis
    unfolding formatProofEntry_eq hexValue_0x by simp
qed

lemma length_formatProofEntry: "length (formatProofEntry p) = 2 + max 64 (length (hexValue p))"
  by (simp add: formatProofEntry_eq length_padStart)

text \<open>
  Claim C7, as amended. For every proof entry whose part after the optional \<^verbatim>\<open>0x\<close> has at
  most 64 characters, the normalisation strips the prefix, pads the rest on the left with
  \<^verbatim>\<open>0\<close> to exactly 64 characters and puts \<^verbatim>\<open>0x\<close> in front, 66 characters in all; the
  entry \<^verbatim>\<open>abc\<close> becomes \<^verbatim>\<open>0x\<close>, 61 zeros, \<^verbatim>\<open>abc\<close>.
\<close>

theorem formatProofEntry_pads_to_64:
  assumes "length (hexValue p) \<le> 64"
  shows "formatProofEntry p = ''0x'' @ replicate (64 - length (hexValue p)) (CHR ''0'') @ hexValue p
     \<and> length (formatProofEntry p) = 66
     \<and> hexValue p = (if startsWith p ''0x'' then drop 2 p else p)
     \<and> formatProofEntry ''abc'' = ''0x'' @ replicate 61 (CHR ''0'') @ ''abc''"
proof -
  have pad: "padStart (hexValue p) 64 (CHR ''0'') = replicate (64 - length (hexValue p)) (CHR ''0'') @ hexValue p"
    by (simp add: padStart_def)
  have len: "length (formatProofEntry p) = 66"
    using assms by (simp add: length_formatProofEntry)
  have abc: "formatProofEntry ''abc'' = ''0x'' @ replicate 61 (CHR ''0'') @ ''abc''"
    by (simp add: formatProofEntry_def hexValue_def startsWith_def padStart_def)
  show ?thesis
    using pad len abc by (simp add: formatProofEntry_eq hexValue_def slice_def)
qed

theorem formatProofEntry_pads_to_64_witness:
  "length (hexValue ''0x1f'') \<le> 64
   \<and> formatProofEntry ''0x1f'' = ''0x'' @ replicate 62 (CHR ''0'') @ ''1f''
   \<and> length (formatProofEntry ''0x1f'') = 66"
proof -
  have h: "length (hexValue ''0x1f'') \<le> 64"
    by (simp add: hexValue_def startsWith_def slice_def)
  have v: "hexValue ''0x1f'' = ''1f''"
    by (simp add: hexValue_def startsWith_def slice_def)
  show ?thesis
    using h formatProofEntry_pads_to_64 [OF h] by (simp add: v)
qed

text \<open>
  Claim C7 as stated speaks of every entry. An entry of 65 characters is not padded and
  not cut: the part after \<^verbatim>\<open>0x\<close> keeps its 65 characters, so the result has 67.
\<close>

theorem formatProofEntry_long_entry:
  "hexValue (replicate 65 (CHR ''a'')) = replicate 65 (CHR ''a'')
   \<and> formatProofEntry (replicate 65 (CHR ''a'')) = ''0x'' @ replicate 65 (CHR ''a'')
   \<and> length (formatProofEntry (replicate 65 (CHR ''a''))) = 67"
proof -
  have r: "replicate 65 (CHR ''a'') = CHR ''a'' # CHR ''a'' # replicate 63 (CHR ''a'')"
    by (simp add: numeral_eq_Suc)
  have h: "hexValue (replicate 65 (CHR ''a'')) = replicate 65 (CHR ''a'')"
    unfolding r by (simp add: hexValue_def startsWith_def)
  show ?thesis
    by (simp add: h formatProofEntry_eq)
qed

text \<open>
  Claim C10. The normalisation is idempotent on every entry whose part after the optional
  \<^verbatim>\<open>0x\<close> has at most 64 characters, and an entry already in normal form (\<^verbatim>\<open>0x\<close> and
  exactly 64 hexadecimal digits) is mapped to itself.
\<close>

theorem formatProofEntry_idempotent:
  "(length (hexValue p) \<le> 64 \<longrightarrow> formatProofEntry (formatProofEntry p) = formatProofEntry p)
   \<and> (normalizedEntry q \<longrightarrow> formatProofEntry q = q)"
proof -
  have "formatProofEntry q = q" if n: "normalizedEntry q"
  proof -
    from n have "take (length ''0x'') q = ''0x''" and l: "length q = 66"
      by (simp_all add: normalizedEntry_def startsWith_def)
    then have s: "take 2 q = ''0x''"
      by (simp add: numeral_2_eq_2)
    have q: "q = ''0x'' @ drop 2 q"
      using s append_take_drop_id [of 2 q] by simp
    have "length (drop 2 q) = 64" using l by simp
    then have "formatProofEntry (''0x'' @ drop 2 q) = ''0x'' @ drop 2 q"
      unfolding formatProofEntry_eq hexValue_0x by simp
    with q show ?thesis by simp
  qed
  then show ?thesis
    by (simp add: formatProofEntry_again)
qed

theorem formatProofEntry_idempotent_witness:
  "length (hexValue ''abc'') \<le> 64
   \<and> formatProofEntry (formatProofEntry ''abc'') = formatProofEntry ''abc''
   \<and> normalizedEntry (''0x'' @ replicate 64 (CHR ''f''))
   \<and> formatProofEntry (''0x'' @ replicate 64 (CHR ''f'')) = ''0x'' @ replicate 64 (CHR ''f'')"
proof -
  have h: "length (hexValue ''abc'') \<le> 64"
    by (simp add: hexValue_def startsWith_def)
  have n: "normalizedEntry (''0x'' @ replicate 64 (CHR ''f''))"
    by (simp add: normalizedEntry_def startsWith_def slice_def isHexDigit_def list_all_iff)
  show ?thesis
    using h n formatProofEntry_idempotent [of "''abc''" "''0x'' @ replicate 64 (CHR ''f'')"]
    by simp
qed

section \<open>Properties of \<^verbatim>\<open>formatTokenAmount\<close>\<close>

text \<open>
  Claim C6, as amended. \<^verbatim>\<open>formatTokenAmount\<close> scales by 18 decimals: the base-unit
  string \<^verbatim>\<open>1000000000000000000\<close> formats to \<^verbatim>\<open>1.0\<close>; an absent amount and the empty
  string format to \<^verbatim>\<open>0\<close>; the string \<^verbatim>\<open>0\<close> is truthy, goes through
  \<^verbatim>\<open>ethers.formatEther\<close> like any other amount and formats to \<^verbatim>\<open>0.0\<close>.
\<close>

theorem formatTokenAmount_values:
  "formatTokenAmount (Some ''1000000000000000000'') = ''1.0''
   \<and> formatTokenAmount (Some ''1500000000000000000'') = ''1.5''
   \<and> formatTokenAmount (Some ''1'') = ''0.000000000000000001''
   \<and> formatTokenAmount None = ''0''
   \<and> formatTokenAmount (Some []) = ''0''
   \<and> formatTokenAmount (Some ''0'') = ''0.0''"
proof -
  have scaled: "formatTokenAmount (Some ''1000000000000000000'') = ''1.0''"
    "formatTokenAmount (Some ''1500000000000000000'') = ''1.5''"
    "formatTokenAmount (Some ''1'') = ''0.000000000000000001''"
    by code_simp+
  have guarded: "formatTokenAmount None = ''0''" "formatTokenAmount (Some []) = ''0''"
    by (simp_all add: formatTokenAmount_def)
  have zero: "formatTokenAmount (Some ''0'') = ''0.0''"
    by code_simp
  from scaled guarded zero show ?thesis by simp
qed

text \<open>
  Claim C6 as stated has the input string \<^verbatim>\<open>0\<close> format to \<^verbatim>\<open>0\<close>. It does not.
\<close>

theorem formatTokenAmount_zero_string:
  "formatTokenAmount (Some ''0'') \<noteq> ''0''"
  by code_simp

section \<open>Properties of the retry loop\<close>

lemma attempts_simps [simp]:
  "attempts [] = 0"
  "attempts (tr @ tr') = attempts tr + attempts tr'"
  "attempts (Request k t # tr) = Suc (attempts tr)"
  "attempts (Delay d # tr) = attempts tr"
  "attempts (SendTransaction x # tr) = attempts tr"
  by (simp_all add: attempts_def)

lemma sentTransactions_append [simp]:
  "sentTransactions (tr @ tr') = sentTransactions tr @ sentTransactions tr'"
  by (induction tr rule: sentTransactions.induct) simp_all

lemma attemptResult_Inr: "attemptResult at = Inr r \<longleftrightarrow> at = Responds r \<and> code r = 0"
  by (cases at) auto

lemma attemptResult_failure: "\<not> succeeds at \<Longrightarrow> attemptResult at = Inl (failure at)"
  by (cases at) (auto simp: succeeds_def)

lemma attemptResult_Inl: "attemptResult at = Inl e \<Longrightarrow> \<not> succeeds at \<and> failure at = e"
  by (cases at) (auto simp: succeeds_def split: if_splits)

text \<open>One iteration of the loop, case by case.\<close>

lemma retryLoop_stop:
  "\<not> k < M \<Longrightarrow> retryLoop M tmo req k le tr =
     (case le of None \<Rightarrow> (Inl ThrownUndefined, tr) | Some e \<Rightarrow> (Inl e, tr))"
  by (subst retryLoop.simps) simp

lemma retryLoop_ok:
  "k < M \<Longrightarrow> attemptResult (req k) = Inr r
   \<Longrightarrow> retryLoop M tmo req k le tr = (Inr r, tr @ [Request k tmo])"
  by (subst retryLoop.simps) simp

lemma retryLoop_nullish:
  "k < M \<Longrightarrow> attemptResult (req k) = Inl e \<Longrightarrow> nullish e
   \<Longrightarrow> retryLoop M tmo req k le tr = (Inl TypeError, tr @ [Request k tmo])"
  by (subst retryLoop.simps) simp

lemma retryLoop_429:
  "k < M \<Longrightarrow> attemptResult (req k) = Inl e \<Longrightarrow> \<not> nullish e \<Longrightarrow> responseStatus e = Some 429
   \<Longrightarrow> retryLoop M tmo req k le tr =
       retryLoop M tmo req (k + 1) (Some e) (tr @ [Request k tmo, Delay (5000 + (k + 1) * 2000)])"
  by (subst retryLoop.simps) simp

lemma retryLoop_wait:
  "k < M \<Longrightarrow> attemptResult (req k) = Inl e \<Longrightarrow> \<not> nullish e \<Longrightarrow> responseStatus e \<noteq> Some 429
   \<Longrightarrow> k + 1 < M
   \<Longrightarrow> retryLoop M tmo req k le tr =
       retryLoop M tmo req (k + 1) (Some e) (tr @ [Request k tmo, Delay ((k + 1) * 1000)])"
  by (subst retryLoop.simps) simp

lemma retryLoop_last:
  "k < M \<Longrightarrow> attemptResult (req k) = Inl e \<Longrightarrow> \<not> nullish e \<Longrightarrow> responseStatus e \<noteq> Some 429
   \<Longrightarrow> \<not> k + 1 < M
   \<Longrightarrow> retryLoop M tmo req k le tr =
       retryLoop M tmo req (k + 1) (Some e) (tr @ [Request k tmo])"
  by (subst retryLoop.simps) simp

text \<open>
  A failed attempt with an error object: the loop goes on with the next attempt, after
  the request and at most a delay.
\<close>

lemma retryLoop_fail:
  assumes "k < M" and "attemptResult (req k) = Inl e" and "\<not> nullish e"
  obtains d where
    "retryLoop M tmo req k le tr =
       retryLoop M tmo req (k + 1) (Some e) (tr @ Request k tmo # d)"
    and "attempts d = 0" and "sentTransactions d = []"
proof (cases "responseStatus e = Some 429")
  case True
  from retryLoop_429 [where req = req and k = k, OF assms True]
  have "retryLoop M tmo req k le tr =
      retryLoop M tmo req (k + 1) (Some e) (tr @ Request k tmo # [Delay (5000 + (k + 1) * 2000)])"
    by simp
  then show ?thesis by (rule that) simp_all
next
  case s: False
  show ?thesis
  proof (cases "k + 1 < M")
    case True
    from retryLoop_wait [where req = req and k = k, OF assms s True]
    have "retryLoop M tmo req k le tr =
        retryLoop M tmo req (k + 1) (Some e) (tr @ Request k tmo # [Delay ((k + 1) * 1000)])"
      by simp
    then show ?thesis by (rule that) simp_all
  next
    case False
    from retryLoop_last [where req = req and k = k, OF assms s False]
    have "retryLoop M tmo req k le tr =
        retryLoop M tmo req (k + 1) (Some e) (tr @ Request k tmo # [])"
      by simp
    then show ?thesis by (rule that) simp_all
  qed
qed

lemma retryLoop_attempts_le:
  "attempts (snd (retryLoop M tmo req k le tr)) \<le> attempts tr + (M - k)"
proof (induction "M - k" arbitrary: k le tr rule: less_induct)
  case less
  show ?case
  proof (cases "k < M")
    case False
    then show ?thesis
      by (simp add: retryLoop_stop split: option.splits)
  next
    case lt: True
    show ?thesis
    proof (cases "attemptResult (req k)")
      case (Inr r)
      with lt show ?thesis
        by (simp add: retryLoop_ok)
    next
      case (Inl e)
      show ?thesis
      proof (cases "nullish e")
        case True
        with lt Inl show ?thesis
          by (simp add: retryLoop_nullish)
      next
        case False
        from retryLoop_fail [where req = req and k = k and tmo = tmo and le = le and tr = tr, OF lt Inl False] obtain d
          where d: "retryLoop M tmo req k le tr =
              retryLoop M tmo req (k + 1) (Some e) (tr @ Request k tmo # d)"
            and n: "attempts d = 0"
          by blast
        from lt have "M - (k + 1) < M - k" by simp
        from less [OF this, of "Some e" "tr @ Request k tmo # d"] lt n show ?thesis
          by (simp add: d)
      qed
    qed
  qed
qed

lemma retryLoop_sends:
  "sentTransactions (snd (retryLoop M tmo req k le tr)) = sentTransactions tr"
proof (induction "M - k" arbitrary: k le tr rule: less_induct)
  case less
  show ?case
  proof (cases "k < M")
    case False
    then show ?thesis
      by (simp add: retryLoop_stop split: option.splits)
  next
    case lt: True
    show ?thesis
    proof (cases "attemptResult (req k)")
      case (Inr r)
      with lt show ?thesis
        by (simp add: retryLoop_ok)
    next
      case (Inl e)
      show ?thesis
      proof (cases "nullish e")
        case True
        with lt Inl show ?thesis
          by (simp add: retryLoop_nullish)
      next
        case False
        from retryLoop_fail [where req = req and k = k and tmo = tmo and le = le and tr = tr, OF lt Inl False] obtain d
          where d: "retryLoop M tmo req k le tr =
              retryLoop M tmo req (k + 1) (Some e) (tr @ Request k tmo # d)"
            and n: "sentTransactions d = []"
          by blast
        from lt have "M - (k + 1) < M - k" by simp
        from less [OF this, of "Some e" "tr @ Request k tmo # d"] n show ?thesis
          by (simp add: d)
      qed
    qed
  qed
qed

text \<open>
  The run up to attempt \<open>i\<close>, when every attempt before it fails with an error
  object and attempt \<open>i\<close> ends the loop with \<open>res\<close>, whatever the state it is reached
  in: the loop ends with \<open>res\<close> after \<open>i - k + 1\<close> more requests.
\<close>

lemma retryLoop_skip:
  assumes "k \<le> i"
    and "\<forall>j. k \<le> j \<and> j < i \<longrightarrow> \<not> succeeds (req j) \<and> \<not> nullish (failure (req j))"
    and "\<And>le' tr'. \<exists>d. retryLoop M tmo req i le' tr' = (res, tr' @ Request i tmo # d)
          \<and> attempts d = 0"
    and "i < M"
  shows "fst (retryLoop M tmo req k le tr) = res
      \<and> attempts (snd (retryLoop M tmo req k le tr)) = attempts tr + (i - k + 1)"
  using assms(1,2)
proof (induction "i - k" arbitrary: k le tr rule: less_induct)
  case less
  show ?case
  proof (cases "k = i")
    case True
    from assms(3) [of le tr] obtain d
      where "retryLoop M tmo req i le tr = (res, tr @ Request i tmo # d)" "attempts d = 0"
      by blast
    with True show ?thesis by simp
  next
    case False
    with less.prems assms(4) have ki: "k < i" and lt: "k < M" by simp_all
    from less.prems ki have f: "\<not> succeeds (req k)" and n: "\<not> nullish (failure (req k))"
      by simp_all
    from attemptResult_failure [OF f] have Inl: "attemptResult (req k) = Inl (failure (req k))" .
    from retryLoop_fail [where req = req and k = k and tmo = tmo and le = le and tr = tr, OF lt Inl n] obtain d
      where d: "retryLoop M tmo req k le tr =
          retryLoop M tmo req (k + 1) (Some (failure (req k))) (tr @ Request k tmo # d)"
        and a: "attempts d = 0"
      by blast
    from ki have m: "i - (k + 1) < i - k" and le1: "k + 1 \<le> i" by simp_all
    have rest: "\<forall>j. k + 1 \<le> j \<and> j < i \<longrightarrow> \<not> succeeds (req j) \<and> \<not> nullish (failure (req j))"
      using less.prems by simp
    from less.hyps [OF m le1 rest, of "Some (failure (req k))" "tr @ Request k tmo # d"] a ki
    show ?thesis
      by (simp add: d)
  qed
qed

lemma retryLoop_success:
  assumes "k \<le> i" and "i < M"
    and "\<forall>j. k \<le> j \<and> j < i \<longrightarrow> \<not> succeeds (req j) \<and> \<not> nullish (failure (req j))"
    and "attemptResult (req i) = Inr r"
  shows "fst (retryLoop M tmo req k le tr) = Inr r
      \<and> attempts (snd (retryLoop M tmo req k le tr)) = attempts tr + (i - k + 1)"
proof (rule retryLoop_skip [where req = req and k = k and i = i, OF assms(1,3) _ assms(2)])
  fix le' tr'
  from retryLoop_ok [where req = req and k = i and tmo = tmo and le = le' and tr = tr', OF assms(2,4)]
  have "retryLoop M tmo req i le' tr' = (Inr r, tr' @ Request i tmo # []) \<and> attempts [] = 0"
    by simp
  then show "\<exists>d. retryLoop M tmo req i le' tr' = (Inr r, tr' @ Request i tmo # d) \<and> attempts d = 0"
    by blast
qed

lemma retryLoop_undefined:
  assumes "k \<le> i" and "i < M"
    and "\<forall>j. k \<le> j \<and> j < i \<longrightarrow> \<not> succeeds (req j) \<and> \<not> nullish (failure (req j))"
    and "\<not> succeeds (req i)" and "nullish (failure (req i))"
  shows "fst (retryLoop M tmo req k le tr) = Inl TypeError
      \<and> attempts (snd (retryLoop M tmo req k le tr)) = attempts tr + (i - k + 1)"
proof (rule retryLoop_skip [where req = req and k = k and i = i, OF assms(1,3) _ assms(2)])
  fix le' tr'
  from retryLoop_nullish [where req = req and k = i and tmo = tmo and le = le' and tr = tr',
      OF assms(2) attemptResult_failure [OF assms(4)] assms(5)]
  have "retryLoop M tmo req i le' tr' = (Inl TypeError, tr' @ Request i tmo # []) \<and> attempts [] = 0"
    by simp
  then show "\<exists>d. retryLoop M tmo req i le' tr' = (Inl TypeError, tr' @ Request i tmo # d)
      \<and> attempts d = 0"
    by blast
qed

lemma retryLoop_exhausted:
  assumes "k < M"
    and "\<forall>j. k \<le> j \<and> j < M \<longrightarrow> \<not> succeeds (req j) \<and> \<not> nullish (failure (req j))"
  shows "fst (retryLoop M tmo req k le tr) = Inl (failure (req (M - 1)))
      \<and> attempts (snd (retryLoop M tmo req k le tr)) = attempts tr + (M - k)"
proof -
  from assms(1) have k: "k \<le> M - 1" and l: "M - 1 < M" and s: "M - 1 + 1 = M" by simp_all
  have pre: "\<forall>j. k \<le> j \<and> j < M - 1 \<longrightarrow> \<not> succeeds (req j) \<and> \<not> nullish (failure (req j))"
    using assms(2) by (auto dest: less_imp_diff_less)
  from assms l have f: "\<not> succeeds (req (M - 1))" and n: "\<not> nullish (failure (req (M - 1)))"
    by simp_all
  have fin: "\<exists>d. retryLoop M tmo req (M - 1) le' tr' =
        (Inl (failure (req (M - 1))), tr' @ Request (M - 1) tmo # d) \<and> attempts d = 0" for le' tr'
  proof -
    from retryLoop_fail [where req = req and k = "M - 1" and tmo = tmo and le = le' and tr = tr',
        OF l attemptResult_failure [OF f] n] obtain d
      where d: "retryLoop M tmo req (M - 1) le' tr' =
          retryLoop M tmo req (M - 1 + 1) (Some (failure (req (M - 1)))) (tr' @ Request (M - 1) tmo # d)"
        and a: "attempts d = 0"
      by blast
    from d a show ?thesis
      unfolding s by (simp add: retryLoop_stop)
  qed
  from retryLoop_skip [where req = req and k = k and i = "M - 1" and le = le and tr = tr,
      OF k pre fin l] assms(1) show ?thesis
    by simp
qed

lemma retryLoop_Inr:
  "fst (retryLoop M tmo req k le tr) = Inr r \<Longrightarrow> \<exists>i. k \<le> i \<and> i < M \<and> attemptResult (req i) = Inr r"
proof (induction "M - k" arbitrary: k le tr rule: less_induct)
  case less
  show ?case
  proof (cases "k < M")
    case False
    with less.prems show ?thesis
      by (simp add: retryLoop_stop split: option.splits)
  next
    case lt: True
    show ?thesis
    proof (cases "attemptResult (req k)")
      case (Inr r')
      with lt less.prems have "r' = r"
        by (simp add: retryLoop_ok)
      with Inr lt show ?thesis by auto
    next
      case (Inl e)
      show ?thesis
      proof (cases "nullish e")
        case True
        with lt Inl less.prems show ?thesis
          by (simp add: retryLoop_nullish)
      next
        case False
        from retryLoop_fail [where req = req and k = k and tmo = tmo and le = le and tr = tr, OF lt Inl False] obtain d
          where d: "retryLoop M tmo req k le tr =
              retryLoop M tmo req (k + 1) (Some e) (tr @ Request k tmo # d)"
          by blast
        from lt have "M - (k + 1) < M - k" by simp
        from less.hyps [OF this, of "Some e" "tr @ Request k tmo # d"] less.prems d
        obtain i where "k + 1 \<le> i" "i < M" "attemptResult (req i) = Inr r"
          by auto
        then have "k \<le> i \<and> i < M \<and> attemptResult (req i) = Inr r"
          by simp
        then show ?thesis ..
      qed
    qed
  qed
qed

text \<open>
  Claim C2. With \<^verbatim>\<open>maxRetries = 5\<close> the loop makes at most five requests, whatever the
  endpoint does. When the failures are error objects (a response with a code other than
  0, or a rejection with anything but \<^verbatim>\<open>undefined\<close> or \<^verbatim>\<open>null\<close>): if attempt \<open>i\<close>
  (counted from 0) is the first whose response has code 0, that response is returned
  after \<open>i + 1\<close> requests; if the first five attempts all fail, the error of the fifth is
  thrown after exactly five requests. Whatever is returned is a response with code 0
  that the endpoint gave.
\<close>

theorem checkEligibilityWithRetry_five_attempts:
  assumes "maxRetries a = 5"
  shows "attempts (snd (checkEligibilityWithRetry a tmo req)) \<le> 5
    \<and> (i < 5 \<and> (\<forall>j<i. \<not> succeeds (req j) \<and> \<not> nullish (failure (req j)))
          \<and> req i = Responds r \<and> code r = 0
        \<longrightarrow> fst (checkEligibilityWithRetry a tmo req) = Inr r
          \<and> attempts (snd (checkEligibilityWithRetry a tmo req)) = i + 1)
    \<and> ((\<forall>j<5. \<not> succeeds (req j) \<and> \<not> nullish (failure (req j)))
        \<longrightarrow> fst (checkEligibilityWithRetry a tmo req) = Inl (failure (req 4))
          \<and> attempts (snd (checkEligibilityWithRetry a tmo req)) = 5)
    \<and> (fst (checkEligibilityWithRetry a tmo req) = Inr r'
        \<longrightarrow> code r' = 0 \<and> (\<exists>k<5. req k = Responds r'))"
proof -
  have a: "attempts (snd (checkEligibilityWithRetry a tmo req)) \<le> 5"
    using retryLoop_attempts_le [of 5 tmo req 0 None "[]"] assms
    by (simp add: checkEligibilityWithRetry_def)
  have b: "fst (checkEligibilityWithRetry a tmo req) = Inr r
      \<and> attempts (snd (checkEligibilityWithRetry a tmo req)) = i + 1"
    if "i < 5" "\<forall>j<i. \<not> succeeds (req j) \<and> \<not> nullish (failure (req j))"
      "req i = Responds r" "code r = 0"
    using retryLoop_success [where k = 0 and i = i and M = 5 and req = req and r = r
        and tmo = tmo and le = None and tr = "[]"] that assms
    by (simp add: checkEligibilityWithRetry_def)
  have c: "fst (checkEligibilityWithRetry a tmo req) = Inl (failure (req 4))
      \<and> attempts (snd (checkEligibilityWithRetry a tmo req)) = 5"
    if "\<forall>j<5. \<not> succeeds (req j) \<and> \<not> nullish (failure (req j))"
    using retryLoop_exhausted [where k = 0 and M = 5 and req = req and tmo = tmo
        and le = None and tr = "[]"] that assms
    by (simp add: checkEligibilityWithRetry_def)
  have d: "code r' = 0 \<and> (\<exists>k<5. req k = Responds r')"
    if "fst (checkEligibilityWithRetry a tmo req) = Inr r'"
    using retryLoop_Inr [of 5 tmo req 0 None "[]" r'] that assms
    by (auto simp: checkEligibilityWithRetry_def attemptResult_Inr)
  from a b c d show ?thesis by blast
qed

theorem checkEligibilityWithRetry_five_attempts_witness:
  "maxRetries newMindAgent = 5
   \<and> \<not> succeeds (twoFailuresThenOk 0) \<and> \<not> nullish (failure (twoFailuresThenOk 0))
   \<and> \<not> succeeds (twoFailuresThenOk 1) \<and> \<not> nullish (failure (twoFailuresThenOk 1))
   \<and> twoFailuresThenOk 2 = Responds okResponse \<and> code okResponse = 0
   \<and> fst (checkEligibilityWithRetry newMindAgent (Some 15000) twoFailuresThenOk) = Inr okResponse
   \<and> attempts (snd (checkEligibilityWithRetry newMindAgent (Some 15000) twoFailuresThenOk)) = 3
   \<and> \<not> succeeds (serverError 0) \<and> \<not> succeeds (serverError 1) \<and> \<not> succeeds (serverError 2)
   \<and> \<not> succeeds (serverError 3) \<and> \<not> succeeds (serverError 4)
   \<and> \<not> nullish (failure (serverError 0)) \<and> \<not> nullish (failure (serverError 1))
   \<and> \<not> nullish (failure (serverError 2)) \<and> \<not> nullish (failure (serverError 3))
   \<and> \<not> nullish (failure (serverError 4))
   \<and> fst (checkEligibilityWithRetry newMindAgent (Some 15000) serverError)
       = Inl (RequestError (Some 500))
   \<and> attempts (snd (checkEligibilityWithRetry newMindAgent (Some 15000) serverError)) = 5"
proof -
  have m: "maxRetries newMindAgent = 5"
    by (simp add: newMindAgent_def)
  have f: "\<forall>j<2. \<not> succeeds (twoFailuresThenOk j) \<and> \<not> nullish (failure (twoFailuresThenOk j))"
    by (simp add: twoFailuresThenOk_def succeeds_def less_Suc_eq numeral_2_eq_2)
  have g: "twoFailuresThenOk 2 = Responds okResponse" "code okResponse = 0"
    by (simp_all add: twoFailuresThenOk_def okResponse_def)
  have h: "\<forall>j<5. \<not> succeeds (serverError j) \<and> \<not> nullish (failure (serverError j))"
    by (simp add: serverError_def succeeds_def)
  have s: "failure (serverError 4) = RequestError (Some 500)"
    by (simp add: serverError_def)
  note t1 = checkEligibilityWithRetry_five_attempts
    [where a = newMindAgent and i = 2 and req = twoFailuresThenOk and r = okResponse
       and tmo = "Some 15000" and r' = okResponse, OF m]
  note t2 = checkEligibilityWithRetry_five_attempts
    [where a = newMindAgent and i = 0 and req = serverError and r = okResponse
       and tmo = "Some 15000" and r' = okResponse, OF m]
  from t1 f g have a: "fst (checkEligibilityWithRetry newMindAgent (Some 15000) twoFailuresThenOk) = Inr okResponse
     \<and> attempts (snd (checkEligibilityWithRetry newMindAgent (Some 15000) twoFailuresThenOk)) = 3"
    by simp
  from t2 h s have b: "fst (checkEligibilityWithRetry newMindAgent (Some 15000) serverError)
       = Inl (RequestError (Some 500))
     \<and> attempts (snd (checkEligibilityWithRetry newMindAgent (Some 15000) serverError)) = 5"
    by simp
  from m f g h a b show ?thesis by simp
qed

text \<open>
  Beside claim C2: a rejection with \<^verbatim>\<open>undefined\<close> or \<^verbatim>\<open>null\<close> ends the loop at once.
  The \<^verbatim>\<open>catch\<close> throws a TypeError when it reads \<^verbatim>\<open>error.response\<close>, and no further
  request is made, also when a later attempt would have succeeded.
\<close>

lemma checkEligibilityWithRetry_undefined:
  assumes "maxRetries a = 5" and "i < 5"
    and "\<forall>j<i. \<not> succeeds (req j) \<and> \<not> nullish (failure (req j))"
    and "req i = Rejects ThrownUndefined"
  shows "fst (checkEligibilityWithRetry a tmo req) = Inl TypeError
      \<and> attempts (snd (checkEligibilityWithRetry a tmo req)) = i + 1"
  using retryLoop_undefined [where k = 0 and i = i and M = 5 and req = req
      and tmo = tmo and le = None and tr = "[]"] assms
  by (simp add: checkEligibilityWithRetry_def succeeds_def)

text \<open>
  Claim C3, evaluated. Five answers with status 429: after each failed attempt \<open>k\<close>
  the loop waits \<open>5000 + k * 2000\<close> ms, also after the fifth, where it waits 15000 ms and
  then throws without another request. Five answers with status 500: it waits
  \<open>k * 1000\<close> ms after attempts 1 to 4 and throws right after the fifth.
\<close>

theorem retry_waits_after_last_429:
  "checkEligibilityWithRetry newMindAgent tmo rateLimited =
     (Inl (RequestError (Some 429)),
      [Request 0 tmo, Delay 7000, Request 1 tmo, Delay 9000, Request 2 tmo, Delay 11000,
       Request 3 tmo, Delay 13000, Request 4 tmo, Delay 15000])
   \<and> checkEligibilityWithRetry newMindAgent tmo serverError =
     (Inl (RequestError (Some 500)),
      [Request 0 tmo, Delay 1000, Request 1 tmo, Delay 2000, Request 2 tmo, Delay 3000,
       Request 3 tmo, Delay 4000, Request 4 tmo])"
  by (simp add: checkEligibilityWithRetry_def newMindAgent_def rateLimited_def serverError_def
      retryLoop.simps)

section \<open>Properties of the claim pipeline\<close>

lemma checkEligibilityWithRetry_sends:
  "sentTransactions (snd (checkEligibilityWithRetry a tmo req)) = []"
  by (simp add: checkEligibilityWithRetry_def retryLoop_sends)

lemma gwei_price: "parseUnits ''1.02'' ''gwei'' = Inr 1020000000"
  by code_simp

lemma logAndRethrow_simps [simp]:
  "\<not> nullish (logAndRethrow e)" "\<not> nullish e \<Longrightarrow> logAndRethrow e = e"
  by (simp_all add: logAndRethrow_def)

lemma sendTransaction_eq:
  "sendTransaction env txd =
     (case wallet_sendTransaction env (claimRequest txd) of
        Inl e \<Rightarrow> (Inl (logAndRethrow e), [SendTransaction (claimRequest txd)])
      | Inr txResponse \<Rightarrow>
          (case wait txResponse of
             Inl e \<Rightarrow> (Inl (logAndRethrow e), [SendTransaction (claimRequest txd)])
           | Inr None \<Rightarrow> (Inl TypeError, [SendTransaction (claimRequest txd)])
           | Inr (Some rc) \<Rightarrow> (Inr (receiptStatus rc = Some 1), [SendTransaction (claimRequest txd)])))"
  by (simp add: sendTransaction_def gwei_price claimRequest_def Let_def logAndRethrow_def
      split: sum.splits option.splits)

text \<open>
  \<^verbatim>\<open>sendTransaction\<close> returns exactly when a receipt is delivered, and then it returns
  whether the status of that receipt is 1; what it throws is an error object.
\<close>

lemma sendTransaction_Inr:
  "fst (sendTransaction env txd) = Inr b \<longleftrightarrow>
     (\<exists>txr rc. wallet_sendTransaction env (claimRequest txd) = Inr txr
        \<and> wait txr = Inr (Some rc) \<and> b = (receiptStatus rc = Some 1))"
  by (auto simp: sendTransaction_eq split: sum.splits option.splits)

lemma sendTransaction_Inl:
  "fst (sendTransaction env txd) = Inl e \<Longrightarrow> \<not> nullish e"
  by (auto simp: sendTransaction_eq split: sum.splits option.splits)

lemma sendTransaction_no_receipt:
  "\<not> (\<exists>txr rc. wallet_sendTransaction env (claimRequest txd) = Inr txr \<and> wait txr = Inr (Some rc))
   \<Longrightarrow> \<exists>e. sendTransaction env txd = (Inl e, [SendTransaction (claimRequest txd)]) \<and> \<not> nullish e"
  by (auto simp: sendTransaction_eq split: sum.splits option.splits)

lemma sendTransaction_trace:
  "snd (sendTransaction env txd) = [SendTransaction (claimRequest txd)]"
  by (simp add: sendTransaction_eq split: sum.splits option.splits)

lemma buildClaimTx_BigInt:
  "buildClaimTx env amt pj = Inr txd \<Longrightarrow> \<exists>v. BigInt amt = Some v"
  by (auto simp: buildClaimTx_def split: sum.splits option.splits)

lemma claimTry_shape:
  "case claimTry env w a of
     (Inl e, a', tr) \<Rightarrow> a' = a
   | (Inr u, a', tr) \<Rightarrow>
       (\<exists>r. address r = add w \<and> results a' = results a @ [r])
       \<and> successCount a' + failCount a' = successCount a + failCount a + 1
       \<and> maxRetries a' = maxRetries a"
  by (auto simp: claimTry_def pushResult_def incFail_def incSuccess_def Let_def
      split: sum.splits option.splits prod.splits dest: buildClaimTx_BigInt)


lemma processWallet_claim_shape:
  "case processWallet_claim env w a of
     (Inl e, a', tr) \<Rightarrow> a' = a
   | (Inr u, a', tr) \<Rightarrow>
       (\<exists>r. address r = add w \<and> results a' = results a @ [r])
       \<and> successCount a' + failCount a' = successCount a + failCount a + 1
       \<and> maxRetries a' = maxRetries a"
  using claimTry_shape [where env = env and w = w and a = a]
  by (auto simp: processWallet_claim_def pushResult_def incFail_def
      split: sum.splits prod.splits)

lemma claimTry_throws:
  "fst (claimTry env w a) = Inl e \<Longrightarrow> \<not> nullish e
   \<Longrightarrow> new_RequestManager env = Inr () \<Longrightarrow> new_Wallet env = Inr ()
   \<Longrightarrow> processWallet_claim env w a =
       (Inr (), incFail (pushResult a \<lparr>address = add w, amount = ''0'', status = Some ''error''\<rparr>),
        snd (snd (claimTry env w a)))"
  using claimTry_shape [where env = env and w = w and a = a]
  by (auto simp: processWallet_claim_def split: sum.splits prod.splits)



lemma checkEligibilityWithRetry_sends_eq:
  "checkEligibilityWithRetry a tmo req = (r, tr) \<Longrightarrow> sentTransactions tr = []"
  using checkEligibilityWithRetry_sends [of a tmo req] by simp

lemma claimTry_sends:
  "rq \<in> set (sentTransactions (snd (snd (claimTry env w a)))) \<Longrightarrow> \<exists>txd. rq = claimRequest txd"
  by (auto simp: claimTry_def Let_def sendTransaction_eq
      split: sum.splits option.splits prod.splits dest: checkEligibilityWithRetry_sends_eq)

lemma processWallet_claim_sends:
  "rq \<in> set (sentTransactions (snd (snd (processWallet_claim env w a)))) \<Longrightarrow> \<exists>txd. rq = claimRequest txd"
  using claimTry_sends [of rq env w a]
  by (auto simp: processWallet_claim_def split: sum.splits prod.splits if_splits)

lemma claimTry_sent:
  assumes "signMessage env = Inr sg"
    and "checkEligibilityWithRetry a (Some 15000) (simpleRequest env) = (Inr rsp, tr)"
    and "claimable rsp = Some (d, amt)" and "dataProof d = Inr pj"
    and "buildClaimTx env amt pj = Inr txd"
    and "sendTransaction env txd = (Inr success, tr2)"
  shows "\<exists>v. BigInt amt = Some v \<and> claimTry env w a =
     (Inr (),
      (if success then incSuccess else incFail)
        (pushResult a \<lparr>address = add w, amount = formatTokenAmount (Some amt),
           status = Some (if success then ''success'' else ''failed'')\<rparr>)
        \<lparr>totalAmount := totalAmount a + v\<rparr>,
      tr @ tr2)"
proof -
  from assms(5) obtain v where v: "BigInt amt = Some v"
    by (auto dest: buildClaimTx_BigInt)
  show ?thesis
    using assms v by (simp add: claimTry_def Let_def pushResult_def incSuccess_def incFail_def)
qed

lemma first_answer:
  "attemptResult (req 0) = Inr r \<Longrightarrow>
   checkEligibilityWithRetry newMindAgent tmo req = (Inr r, [Request 0 tmo])"
  by (simp add: checkEligibilityWithRetry_def newMindAgent_def retryLoop_ok)

lemma BigInt_oneToken: "BigInt ''1000000000000000000'' = Some 1000000000000000000"
  by code_simp

lemma formatTokenAmount_oneToken: "formatTokenAmount (Some ''1000000000000000000'') = ''1.0''"
  by code_simp

lemma eligible_facts:
  "new_RequestManager eligibleWallet = Inr ()" "new_Wallet eligibleWallet = Inr ()"
  "signMessage eligibleWallet = Inr ''0xsig''"
  "checkEligibilityWithRetry newMindAgent (Some 15000) (simpleRequest eligibleWallet)
     = (Inr eligibleResponse, [Request 0 (Some 15000)])"
  "claimable eligibleResponse = Some (eligibleData, ''1000000000000000000'')"
  "dataProof eligibleData = Inr (JArray [JString ''abc''])"
  "buildClaimTx eligibleWallet ''1000000000000000000'' (JArray [JString ''abc'']) = Inr claimTx"
  "wallet_sendTransaction eligibleWallet rq = Inr minedResponse"
  "wait minedResponse = Inr (Some \<lparr>receiptStatus = Some 1\<rparr>)"
  by (simp_all add: eligibleWallet_def first_answer eligibleResponse_def eligibleData_def
      claimable_def buildClaimTx_def BigInt_oneToken minedResponse_def)

lemma submission_facts:
  "new_RequestManager receiptReverted = Inr ()" "new_Wallet receiptReverted = Inr ()"
  "signMessage receiptReverted = Inr ''0xsig''"
  "simpleRequest receiptReverted = simpleRequest eligibleWallet"
  "buildClaimTx receiptReverted ''1000000000000000000'' (JArray [JString ''abc'']) = Inr claimTx"
  "wallet_sendTransaction receiptReverted rq = Inr revertedResponse"
  "wait revertedResponse = Inr (Some \<lparr>receiptStatus = Some 0\<rparr>)"
  "new_RequestManager waitRejects = Inr ()" "new_Wallet waitRejects = Inr ()"
  "signMessage waitRejects = Inr ''0xsig''"
  "simpleRequest waitRejects = simpleRequest eligibleWallet"
  "buildClaimTx waitRejects ''1000000000000000000'' (JArray [JString ''abc'']) = Inr claimTx"
  "wallet_sendTransaction waitRejects rq = Inr rejectedResponse"
  "wait rejectedResponse = Inl LibraryError"
  by (simp_all add: receiptReverted_def waitRejects_def revertedResponse_def rejectedResponse_def
      eligibleWallet_def buildClaimTx_def BigInt_oneToken)

text \<open>
  Claim C8. Every transaction that \<^verbatim>\<open>sendTransaction\<close>, and so \<^verbatim>\<open>processWallet\<close>, hands to
  the wallet has gas limit 160000, gas price 1020000000 wei (\<^verbatim>\<open>parseUnits("1.02", "gwei")\<close>)
  and type 0. \<^verbatim>\<open>sendTransaction\<close> returns a value exactly when a receipt is delivered, and
  the value is whether the status of the receipt is 1. For a wallet whose pipeline reaches
  the submission: with a receipt, the record \<^verbatim>\<open>processWallet\<close> pushes has status
  \<^verbatim>\<open>success\<close> if the status of the receipt is 1 and \<^verbatim>\<open>failed\<close> otherwise, with the
  matching counter incremented; without a receipt (the submission throws, the wait
  rejects or resolves to \<^verbatim>\<open>null\<close>) the record has status \<^verbatim>\<open>error\<close> and \<^verbatim>\<open>failCount\<close> is
  incremented. So the claim of a wallet is a success if and only if the awaited receipt
  has status 1.
\<close>

theorem sendTransaction_gas_and_receipt:
  "(rq \<in> set (sentTransactions (snd (sendTransaction env txd)))
       \<or> rq \<in> set (sentTransactions (snd (snd (processWallet_claim env w a))))
     \<longrightarrow> gasLimit rq = Some 160000 \<and> gasPrice rq = Some 1020000000 \<and> txType rq = Some 0)
   \<and> parseUnits ''1.02'' ''gwei'' = Inr 1020000000
   \<and> (fst (sendTransaction env txd) = Inr b \<longleftrightarrow>
        (\<exists>txr rc. wallet_sendTransaction env
              (txd\<lparr>gasLimit := Some 160000, gasPrice := Some 1020000000, txType := Some 0\<rparr>) = Inr txr
           \<and> wait txr = Inr (Some rc) \<and> b = (receiptStatus rc = Some 1)))
   \<and> (new_RequestManager env = Inr () \<and> new_Wallet env = Inr () \<and> signMessage env = Inr sg
       \<and> checkEligibilityWithRetry a (Some 15000) (simpleRequest env) = (Inr rsp, tr)
       \<and> claimable rsp = Some (d, amt) \<and> dataProof d = Inr pj
       \<and> buildClaimTx env amt pj = Inr txd
       \<and> wallet_sendTransaction env
         (txd\<lparr>gasLimit := Some 160000, gasPrice := Some 1020000000, txType := Some 0\<rparr>) = Inr txr
       \<and> wait txr = Inr (Some rc)
     \<longrightarrow> fst (processWallet_claim env w a) = Inr ()
       \<and> results (fst (snd (processWallet_claim env w a))) =
           results a @
             [\<lparr>address = add w, amount = formatTokenAmount (Some amt),
               status = Some (if receiptStatus rc = Some 1 then ''success'' else ''failed'')\<rparr>]
       \<and> successCount (fst (snd (processWallet_claim env w a))) =
           successCount a + (if receiptStatus rc = Some 1 then 1 else 0)
       \<and> failCount (fst (snd (processWallet_claim env w a))) =
           failCount a + (if receiptStatus rc = Some 1 then 0 else 1))
   \<and> (new_RequestManager env = Inr () \<and> new_Wallet env = Inr () \<and> signMessage env = Inr sg
       \<and> checkEligibilityWithRetry a (Some 15000) (simpleRequest env) = (Inr rsp, tr)
       \<and> claimable rsp = Some (d, amt) \<and> dataProof d = Inr pj
       \<and> buildClaimTx env amt pj = Inr txd
       \<and> \<not> (\<exists>txr rc. wallet_sendTransaction env
               (txd\<lparr>gasLimit := Some 160000, gasPrice := Some 1020000000, txType := Some 0\<rparr>) = Inr txr
             \<and> wait txr = Inr (Some rc))
     \<longrightarrow> fst (processWallet_claim env w a) = Inr ()
       \<and> results (fst (snd (processWallet_claim env w a))) =
           results a @ [\<lparr>address = add w, amount = ''0'', status = Some ''error''\<rparr>]
       \<and> successCount (fst (snd (processWallet_claim env w a))) = successCount a
       \<and> failCount (fst (snd (processWallet_claim env w a))) = failCount a + 1)"
proof -
  have g: "gasLimit rq = Some 160000 \<and> gasPrice rq = Some 1020000000 \<and> txType rq = Some 0"
    if "rq \<in> set (sentTransactions (snd (sendTransaction env txd)))
       \<or> rq \<in> set (sentTransactions (snd (snd (processWallet_claim env w a))))"
    using that processWallet_claim_sends [of rq env w a]
    by (auto simp: sendTransaction_trace claimRequest_def)
  have s: "fst (sendTransaction env txd) = Inr b \<longleftrightarrow>
        (\<exists>txr rc. wallet_sendTransaction env
              (txd\<lparr>gasLimit := Some 160000, gasPrice := Some 1020000000, txType := Some 0\<rparr>) = Inr txr
           \<and> wait txr = Inr (Some rc) \<and> b = (receiptStatus rc = Some 1))"
    using sendTransaction_Inr [of env txd b] by (simp add: claimRequest_def)
  have p: "fst (processWallet_claim env w a) = Inr ()
       \<and> results (fst (snd (processWallet_claim env w a))) =
           results a @
             [\<lparr>address = add w, amount = formatTokenAmount (Some amt),
               status = Some (if receiptStatus rc = Some 1 then ''success'' else ''failed'')\<rparr>]
       \<and> successCount (fst (snd (processWallet_claim env w a))) =
           successCount a + (if receiptStatus rc = Some 1 then 1 else 0)
       \<and> failCount (fst (snd (processWallet_claim env w a))) =
           failCount a + (if receiptStatus rc = Some 1 then 0 else 1)"
    if c: "new_RequestManager env = Inr ()" "new_Wallet env = Inr ()"
      and h: "signMessage env = Inr sg"
        "checkEligibilityWithRetry a (Some 15000) (simpleRequest env) = (Inr rsp, tr)"
        "claimable rsp = Some (d, amt)" "dataProof d = Inr pj"
        "buildClaimTx env amt pj = Inr txd"
      and t: "wallet_sendTransaction env
         (txd\<lparr>gasLimit := Some 160000, gasPrice := Some 1020000000, txType := Some 0\<rparr>) = Inr txr"
        "wait txr = Inr (Some rc)"
  proof -
    have "sendTransaction env txd =
        (Inr (receiptStatus rc = Some 1), [SendTransaction (claimRequest txd)])"
      using t by (simp add: sendTransaction_eq claimRequest_def)
    from claimTry_sent [OF h this, of w] c show ?thesis
      by (auto simp: processWallet_claim_def pushResult_def incSuccess_def incFail_def)
  qed
  have n: "fst (processWallet_claim env w a) = Inr ()
       \<and> results (fst (snd (processWallet_claim env w a))) =
           results a @ [\<lparr>address = add w, amount = ''0'', status = Some ''error''\<rparr>]
       \<and> successCount (fst (snd (processWallet_claim env w a))) = successCount a
       \<and> failCount (fst (snd (processWallet_claim env w a))) = failCount a + 1"
    if c: "new_RequestManager env = Inr ()" "new_Wallet env = Inr ()"
      and h: "signMessage env = Inr sg"
        "checkEligibilityWithRetry a (Some 15000) (simpleRequest env) = (Inr rsp, tr)"
        "claimable rsp = Some (d, amt)" "dataProof d = Inr pj"
        "buildClaimTx env amt pj = Inr txd"
      and t: "\<not> (\<exists>txr rc. wallet_sendTransaction env
               (txd\<lparr>gasLimit := Some 160000, gasPrice := Some 1020000000, txType := Some 0\<rparr>) = Inr txr
             \<and> wait txr = Inr (Some rc))"
  proof -
    from t have "\<not> (\<exists>txr rc. wallet_sendTransaction env (claimRequest txd) = Inr txr
        \<and> wait txr = Inr (Some rc))"
      by (simp add: claimRequest_def)
    from sendTransaction_no_receipt [OF this] obtain e
      where e: "sendTransaction env txd = (Inl e, [SendTransaction (claimRequest txd)])"
        and ne: "\<not> nullish e"
      by blast
    from h e have "fst (claimTry env w a) = Inl e"
      by (simp add: claimTry_def)
    from claimTry_throws [OF this ne c] show ?thesis
      by (simp add: pushResult_def incFail_def)
  qed
  from g gwei_price s p n show ?thesis by blast
qed

theorem sendTransaction_gas_and_receipt_witness:
  "claimTx\<lparr>gasLimit := Some 160000, gasPrice := Some 1020000000, txType := Some 0\<rparr>
      \<in> set (sentTransactions (snd (sendTransaction eligibleWallet claimTx)))
   \<and> wallet_sendTransaction eligibleWallet
        (claimTx\<lparr>gasLimit := Some 160000, gasPrice := Some 1020000000, txType := Some 0\<rparr>)
      = Inr minedResponse
   \<and> wait minedResponse = Inr (Some \<lparr>receiptStatus = Some 1\<rparr>)
   \<and> fst (sendTransaction eligibleWallet claimTx) = Inr True
   \<and> new_RequestManager eligibleWallet = Inr () \<and> new_Wallet eligibleWallet = Inr ()
   \<and> signMessage eligibleWallet = Inr ''0xsig''
   \<and> checkEligibilityWithRetry newMindAgent (Some 15000) (simpleRequest eligibleWallet)
       = (Inr eligibleResponse, [Request 0 (Some 15000)])
   \<and> claimable eligibleResponse = Some (eligibleData, ''1000000000000000000'')
   \<and> dataProof eligibleData = Inr (JArray [JString ''abc''])
   \<and> buildClaimTx eligibleWallet ''1000000000000000000'' (JArray [JString ''abc'']) = Inr claimTx
   \<and> fst (processWallet_claim eligibleWallet wallet1 newMindAgent) = Inr ()
   \<and> results (fst (snd (processWallet_claim eligibleWallet wallet1 newMindAgent))) =
       [\<lparr>address = ''0x01'', amount = ''1.0'', status = Some ''success''\<rparr>]
   \<and> successCount (fst (snd (processWallet_claim eligibleWallet wallet1 newMindAgent))) = 1
   \<and> failCount (fst (snd (processWallet_claim eligibleWallet wallet1 newMindAgent))) = 0
   \<and> wallet_sendTransaction receiptReverted
        (claimTx\<lparr>gasLimit := Some 160000, gasPrice := Some 1020000000, txType := Some 0\<rparr>)
      = Inr revertedResponse
   \<and> wait revertedResponse = Inr (Some \<lparr>receiptStatus = Some 0\<rparr>)
   \<and> fst (sendTransaction receiptReverted claimTx) = Inr False
   \<and> results (fst (snd (processWallet_claim receiptReverted wallet1 newMindAgent))) =
       [\<lparr>address = ''0x01'', amount = ''1.0'', status = Some ''failed''\<rparr>]
   \<and> successCount (fst (snd (processWallet_claim receiptReverted wallet1 newMindAgent))) = 0
   \<and> failCount (fst (snd (processWallet_claim receiptReverted wallet1 newMindAgent))) = 1
   \<and> wallet_sendTransaction waitRejects
        (claimTx\<lparr>gasLimit := Some 160000, gasPrice := Some 1020000000, txType := Some 0\<rparr>)
      = Inr rejectedResponse
   \<and> wait rejectedResponse = Inl LibraryError
   \<and> fst (sendTransaction waitRejects claimTx) \<noteq> Inr True
   \<and> fst (sendTransaction waitRejects claimTx) \<noteq> Inr False
   \<and> results (fst (snd (processWallet_claim waitRejects wallet1 newMindAgent))) =
       [\<lparr>address = ''0x01'', amount = ''0'', status = Some ''error''\<rparr>]
   \<and> successCount (fst (snd (processWallet_claim waitRejects wallet1 newMindAgent))) = 0
   \<and> failCount (fst (snd (processWallet_claim waitRejects wallet1 newMindAgent))) = 1"
proof -
  let ?rq = "claimTx\<lparr>gasLimit := Some 160000, gasPrice := Some 1020000000, txType := Some 0\<rparr>"
  have m: "?rq \<in> set (sentTransactions (snd (sendTransaction eligibleWallet claimTx)))"
    by (simp add: sendTransaction_trace claimRequest_def)
  note t1 = sendTransaction_gas_and_receipt [where env = eligibleWallet and txd = claimTx
       and w = wallet1 and a = newMindAgent and rq = ?rq and b = True
       and txr = minedResponse and rc = "\<lparr>receiptStatus = Some 1\<rparr>" and sg = "''0xsig''"
       and rsp = eligibleResponse and tr = "[Request 0 (Some 15000)]" and d = eligibleData
       and amt = "''1000000000000000000''" and pj = "JArray [JString ''abc'']"]
  note t2 = sendTransaction_gas_and_receipt [where env = receiptReverted and txd = claimTx
       and w = wallet1 and a = newMindAgent and rq = ?rq and b = False
       and txr = revertedResponse and rc = "\<lparr>receiptStatus = Some 0\<rparr>" and sg = "''0xsig''"
       and rsp = eligibleResponse and tr = "[Request 0 (Some 15000)]" and d = eligibleData
       and amt = "''1000000000000000000''" and pj = "JArray [JString ''abc'']"]
  note t3 = sendTransaction_gas_and_receipt [where env = waitRejects and txd = claimTx
       and w = wallet1 and a = newMindAgent and rq = ?rq and b = True
       and sg = "''0xsig''"
       and rsp = eligibleResponse and tr = "[Request 0 (Some 15000)]" and d = eligibleData
       and amt = "''1000000000000000000''" and pj = "JArray [JString ''abc'']"]
  note t4 = sendTransaction_gas_and_receipt [where env = waitRejects and txd = claimTx
       and w = wallet1 and a = newMindAgent and rq = ?rq and b = False]
  have c1: "fst (sendTransaction eligibleWallet claimTx) = Inr True
   \<and> fst (processWallet_claim eligibleWallet wallet1 newMindAgent) = Inr ()
   \<and> results (fst (snd (processWallet_claim eligibleWallet wallet1 newMindAgent))) =
       [\<lparr>address = ''0x01'', amount = ''1.0'', status = Some ''success''\<rparr>]
   \<and> successCount (fst (snd (processWallet_claim eligibleWallet wallet1 newMindAgent))) = 1
   \<and> failCount (fst (snd (processWallet_claim eligibleWallet wallet1 newMindAgent))) = 0"
    using t1 eligible_facts
    by (simp add: formatTokenAmount_oneToken wallet1_def newMindAgent_def)
  have c2: "fst (sendTransaction receiptReverted claimTx) = Inr False
   \<and> results (fst (snd (processWallet_claim receiptReverted wallet1 newMindAgent))) =
       [\<lparr>address = ''0x01'', amount = ''1.0'', status = Some ''failed''\<rparr>]
   \<and> successCount (fst (snd (processWallet_claim receiptReverted wallet1 newMindAgent))) = 0
   \<and> failCount (fst (snd (processWallet_claim receiptReverted wallet1 newMindAgent))) = 1"
    using t2 eligible_facts submission_facts
    by (simp add: formatTokenAmount_oneToken wallet1_def newMindAgent_def)
  have c3: "results (fst (snd (processWallet_claim waitRejects wallet1 newMindAgent))) =
       [\<lparr>address = ''0x01'', amount = ''0'', status = Some ''error''\<rparr>]
   \<and> successCount (fst (snd (processWallet_claim waitRejects wallet1 newMindAgent))) = 0
   \<and> failCount (fst (snd (processWallet_claim waitRejects wallet1 newMindAgent))) = 1
   \<and> fst (sendTransaction waitRejects claimTx) \<noteq> Inr True"
    using t3 eligible_facts submission_facts
    by (simp add: wallet1_def newMindAgent_def)
  have c4: "fst (sendTransaction waitRejects claimTx) \<noteq> Inr False"
    using t4 submission_facts by simp
  from m c1 c2 c3 c4 show ?thesis
    by (simp add: eligible_facts submission_facts)
qed

section \<open>Properties of \<^verbatim>\<open>processWallet\<close>\<close>

lemma claimable_None:
  "claimable rsp = None \<longleftrightarrow>
     data rsp = None
     \<or> (\<exists>d. data rsp = Some d
           \<and> (dataAmount d = None \<or> dataAmount d = Some [] \<or> dataAmount d = Some ''0''))"
  by (auto simp: claimable_def split: option.splits)

lemma formatTokenAmount_zero: "formatTokenAmount (Some ''0'') = ''0.0''"
  by code_simp

lemma variation_facts:
  "new_RequestManager noData = Inr ()" "new_Wallet noData = Inr ()"
  "signMessage noData = Inr ''0xsig''" "simpleRequest noData = (\<lambda>k. Responds okResponse)"
  "new_RequestManager zeroAmount = Inr ()" "new_Wallet zeroAmount = Inr ()"
  "signMessage zeroAmount = Inr ''0xsig''"
  "simpleRequest zeroAmount =
     (\<lambda>k. Responds \<lparr>code = 0, data = Some \<lparr>dataAmount = Some ''0'', dataProof = Inl SyntaxError\<rparr>\<rparr>)"
  "new_RequestManager absentAmount = Inr ()" "new_Wallet absentAmount = Inr ()"
  "signMessage absentAmount = Inr ''0xsig''"
  "simpleRequest absentAmount =
     (\<lambda>k. Responds \<lparr>code = 0, data = Some \<lparr>dataAmount = None, dataProof = Inl SyntaxError\<rparr>\<rparr>)"
  "new_RequestManager malformedAmount = Inr ()" "new_Wallet malformedAmount = Inr ()"
  "signMessage malformedAmount = Inr ''0xsig''"
  "simpleRequest malformedAmount =
     (\<lambda>k. Responds \<lparr>code = 0, data = Some \<lparr>dataAmount = Some ''1.5'', dataProof = Inl SyntaxError\<rparr>\<rparr>)"
  by (simp_all add: noData_def zeroAmount_def absentAmount_def malformedAmount_def eligibleWallet_def)



lemma malformed_amount: "BigInt ''1.5'' = None" "formatTokenAmount (Some ''1.5'') = ''0''"
  by code_simp+

text \<open>
  Claim C5, as amended. When the response has no \<^verbatim>\<open>data\<close>, no amount, an empty amount or
  the amount \<^verbatim>\<open>0\<close>, the claim script pushes a record with status \<^verbatim>\<open>no_eligibility\<close> and
  amount \<^verbatim>\<open>0\<close>, counts a failure and sends no transaction. The check script, when the
  response has a \<^verbatim>\<open>data\<close>, pushes a zero amount and counts a success: the amount is
  \<^verbatim>\<open>0\<close> for an absent or empty amount and \<^verbatim>\<open>0.0\<close> for the amount \<^verbatim>\<open>0\<close>. When the
  response has no \<^verbatim>\<open>data\<close>, the check script pushes the amount \<^verbatim>\<open>0\<close> and counts a
  failure.
\<close>

theorem no_claimable_amount:
  assumes "new_RequestManager env = Inr ()" and "new_Wallet env = Inr ()"
    and "signMessage env = Inr sg"
  shows
   "(checkEligibilityWithRetry a (Some 15000) (simpleRequest env) = (Inr rsp, tr)
       \<and> (data rsp = None
          \<or> (\<exists>d. data rsp = Some d
                \<and> (dataAmount d = None \<or> dataAmount d = Some [] \<or> dataAmount d = Some ''0'')))
     \<longrightarrow> processWallet_claim env w a =
           (Inr (),
            incFail (pushResult a
              \<lparr>address = add w, amount = ''0'', status = Some ''no_eligibility''\<rparr>),
            tr)
         \<and> sentTransactions tr = [])
    \<and> (checkEligibilityWithRetry a None (simpleRequest env) = (Inr rsp, tr)
       \<and> data rsp = Some d \<and> (dataAmount d = None \<or> dataAmount d = Some [])
     \<longrightarrow> processWallet_check env w a =
           (Inr (), incSuccess (pushResult a \<lparr>address = add w, amount = ''0'', status = None\<rparr>), tr))
    \<and> (checkEligibilityWithRetry a None (simpleRequest env) = (Inr rsp, tr)
       \<and> data rsp = Some d \<and> dataAmount d = Some ''0''
     \<longrightarrow> processWallet_check env w a =
           (Inr (), incSuccess (pushResult a \<lparr>address = add w, amount = ''0.0'', status = None\<rparr>), tr))
    \<and> (checkEligibilityWithRetry a None (simpleRequest env) = (Inr rsp, tr) \<and> data rsp = None
     \<longrightarrow> processWallet_check env w a =
           (Inr (), incFail (pushResult a \<lparr>address = add w, amount = ''0'', status = None\<rparr>), tr))"
proof -
  have c: "processWallet_claim env w a =
           (Inr (),
            incFail (pushResult a
              \<lparr>address = add w, amount = ''0'', status = Some ''no_eligibility''\<rparr>),
            tr)
         \<and> sentTransactions tr = []"
    if r: "checkEligibilityWithRetry a (Some 15000) (simpleRequest env) = (Inr rsp, tr)"
      and n: "data rsp = None
          \<or> (\<exists>d. data rsp = Some d
                \<and> (dataAmount d = None \<or> dataAmount d = Some [] \<or> dataAmount d = Some ''0''))"
  proof -
    from n have "claimable rsp = None" by (simp add: claimable_None)
    with assms r checkEligibilityWithRetry_sends_eq [OF r] show ?thesis
      by (simp add: processWallet_claim_def claimTry_def)
  qed
  have k1: "processWallet_check env w a =
           (Inr (), incSuccess (pushResult a \<lparr>address = add w, amount = ''0'', status = None\<rparr>), tr)"
    if "checkEligibilityWithRetry a None (simpleRequest env) = (Inr rsp, tr)"
      "data rsp = Some d" "dataAmount d = None \<or> dataAmount d = Some []"
    using that assms
    by (auto simp: processWallet_check_def checkTry_def formatTokenAmount_def Let_def)
  have k2: "processWallet_check env w a =
           (Inr (), incSuccess (pushResult a \<lparr>address = add w, amount = ''0.0'', status = None\<rparr>), tr)"
    if "checkEligibilityWithRetry a None (simpleRequest env) = (Inr rsp, tr)"
      "data rsp = Some d" "dataAmount d = Some ''0''"
    using that assms
    by (simp add: processWallet_check_def checkTry_def formatTokenAmount_zero Let_def)
  have k3: "processWallet_check env w a =
           (Inr (), incFail (pushResult a \<lparr>address = add w, amount = ''0'', status = None\<rparr>), tr)"
    if "checkEligibilityWithRetry a None (simpleRequest env) = (Inr rsp, tr)" "data rsp = None"
    using that assms
    by (simp add: processWallet_check_def checkTry_def)
  from c k1 k2 k3 show ?thesis by blast
qed


theorem no_claimable_amount_witness:
  "new_RequestManager noData = Inr () \<and> new_Wallet noData = Inr ()
   \<and> signMessage noData = Inr ''0xsig''
   \<and> checkEligibilityWithRetry newMindAgent (Some 15000) (simpleRequest noData)
       = (Inr okResponse, [Request 0 (Some 15000)])
   \<and> data okResponse = None
   \<and> processWallet_claim noData wallet1 newMindAgent =
       (Inr (),
        incFail (pushResult newMindAgent
          \<lparr>address = ''0x01'', amount = ''0'', status = Some ''no_eligibility''\<rparr>),
        [Request 0 (Some 15000)])
   \<and> processWallet_claim zeroAmount wallet1 newMindAgent =
       (Inr (),
        incFail (pushResult newMindAgent
          \<lparr>address = ''0x01'', amount = ''0'', status = Some ''no_eligibility''\<rparr>),
        [Request 0 (Some 15000)])
   \<and> processWallet_check absentAmount wallet1 newMindAgent =
       (Inr (),
        incSuccess (pushResult newMindAgent \<lparr>address = ''0x01'', amount = ''0'', status = None\<rparr>),
        [Request 0 None])
   \<and> processWallet_check zeroAmount wallet1 newMindAgent =
       (Inr (),
        incSuccess (pushResult newMindAgent \<lparr>address = ''0x01'', amount = ''0.0'', status = None\<rparr>),
        [Request 0 None])
   \<and> processWallet_check noData wallet1 newMindAgent =
       (Inr (),
        incFail (pushResult newMindAgent \<lparr>address = ''0x01'', amount = ''0'', status = None\<rparr>),
        [Request 0 None])"
proof -
  let ?zero = "\<lparr>dataAmount = Some ''0'', dataProof = Inl SyntaxError\<rparr>"
  let ?absent = "\<lparr>dataAmount = None, dataProof = Inl SyntaxError\<rparr>"
  have n: "checkEligibilityWithRetry newMindAgent tmo (simpleRequest noData)
       = (Inr okResponse, [Request 0 tmo])" for tmo
    by (simp add: variation_facts first_answer okResponse_def)
  have z: "checkEligibilityWithRetry newMindAgent tmo (simpleRequest zeroAmount)
       = (Inr \<lparr>code = 0, data = Some ?zero\<rparr>, [Request 0 tmo])" for tmo
    by (simp add: variation_facts first_answer)
  have b: "checkEligibilityWithRetry newMindAgent tmo (simpleRequest absentAmount)
       = (Inr \<lparr>code = 0, data = Some ?absent\<rparr>, [Request 0 tmo])" for tmo
    by (simp add: variation_facts first_answer)
  have o: "data okResponse = None"
    by (simp add: okResponse_def)
  note t1 = no_claimable_amount [where env = noData and sg = "''0xsig''" and a = newMindAgent
      and rsp = okResponse and tr = "[Request 0 (Some 15000)]" and w = wallet1 and d = ?zero]
  note t2 = no_claimable_amount [where env = zeroAmount and sg = "''0xsig''" and a = newMindAgent
      and rsp = "\<lparr>code = 0, data = Some ?zero\<rparr>" and tr = "[Request 0 (Some 15000)]"
      and w = wallet1 and d = ?zero]
  note t3 = no_claimable_amount [where env = absentAmount and sg = "''0xsig''" and a = newMindAgent
      and rsp = "\<lparr>code = 0, data = Some ?absent\<rparr>" and tr = "[Request 0 None]"
      and w = wallet1 and d = ?absent]
  note t4 = no_claimable_amount [where env = zeroAmount and sg = "''0xsig''" and a = newMindAgent
      and rsp = "\<lparr>code = 0, data = Some ?zero\<rparr>" and tr = "[Request 0 None]"
      and w = wallet1 and d = ?zero]
  note t5 = no_claimable_amount [where env = noData and sg = "''0xsig''" and a = newMindAgent
      and rsp = okResponse and tr = "[Request 0 None]" and w = wallet1 and d = ?zero]
  have c1: "processWallet_claim noData wallet1 newMindAgent =
       (Inr (),
        incFail (pushResult newMindAgent
          \<lparr>address = ''0x01'', amount = ''0'', status = Some ''no_eligibility''\<rparr>),
        [Request 0 (Some 15000)])"
    using t1 n o by (simp add: variation_facts wallet1_def)
  have c2: "processWallet_claim zeroAmount wallet1 newMindAgent =
       (Inr (),
        incFail (pushResult newMindAgent
          \<lparr>address = ''0x01'', amount = ''0'', status = Some ''no_eligibility''\<rparr>),
        [Request 0 (Some 15000)])"
    using t2 z by (simp add: variation_facts wallet1_def)
  have c3: "processWallet_check absentAmount wallet1 newMindAgent =
       (Inr (),
        incSuccess (pushResult newMindAgent \<lparr>address = ''0x01'', amount = ''0'', status = None\<rparr>),
        [Request 0 None])"
    using t3 b by (simp add: variation_facts wallet1_def)
  have c4: "processWallet_check zeroAmount wallet1 newMindAgent =
       (Inr (),
        incSuccess (pushResult newMindAgent \<lparr>address = ''0x01'', amount = ''0.0'', status = None\<rparr>),
        [Request 0 None])"
    using t4 z by (simp add: variation_facts wallet1_def)
  have c5: "processWallet_check noData wallet1 newMindAgent =
       (Inr (),
        incFail (pushResult newMindAgent \<lparr>address = ''0x01'', amount = ''0'', status = None\<rparr>),
        [Request 0 None])"
    using t5 n o by (simp add: variation_facts wallet1_def)
  from n o c1 c2 c3 c4 c5 show ?thesis
    by (simp add: variation_facts)
qed

text \<open>
  Claim C5 as stated has the check script record a success whenever there is no claimable
  amount. For a response with code 0 and no \<^verbatim>\<open>data\<close> it counts a failure.
\<close>

theorem check_without_data_counts_failure:
  "simpleRequest noData 0 = Responds \<lparr>code = 0, data = None\<rparr>
   \<and> processWallet_check noData wallet1 newMindAgent =
       (Inr (),
        \<lparr>successCount = 0, failCount = 1,
         results = [\<lparr>address = ''0x01'', amount = ''0'', status = None\<rparr>],
         totalAmount = 0, maxRetries = 5\<rparr>,
        [Request 0 None])"
proof -
  have "checkEligibilityWithRetry newMindAgent None (simpleRequest noData)
       = (Inr okResponse, [Request 0 None])"
    by (simp add: variation_facts first_answer okResponse_def)
  then show ?thesis
    by (simp add: processWallet_check_def checkTry_def variation_facts okResponse_def
        pushResult_def incFail_def newMindAgent_def wallet1_def)
qed





text \<open>
  Claim C9, evaluated. The check script, for a response whose amount is the string
  \<^verbatim>\<open>1.5\<close>: the formatted amount \<^verbatim>\<open>0\<close> is pushed, then \<^verbatim>\<open>BigInt\<close> throws at the addition to
  the total, and the \<^verbatim>\<open>catch\<close> pushes a second record and counts one failure. Two records,
  one count.
\<close>

theorem check_malformed_amount_pushes_twice:
  "processWallet_check malformedAmount wallet1 newMindAgent =
     (Inr (),
      \<lparr>successCount = 0, failCount = 1,
       results = [\<lparr>address = ''0x01'', amount = ''0'', status = None\<rparr>,
                  \<lparr>address = ''0x01'', amount = ''0'', status = None\<rparr>],
       totalAmount = 0, maxRetries = 5\<rparr>,
      [Request 0 None])"
proof -
  have "checkEligibilityWithRetry newMindAgent None (simpleRequest malformedAmount)
       = (Inr \<lparr>code = 0, data = Some \<lparr>dataAmount = Some ''1.5'', dataProof = Inl SyntaxError\<rparr>\<rparr>,
          [Request 0 None])"
    by (simp add: variation_facts first_answer)
  then show ?thesis
    by (simp add: processWallet_check_def checkTry_def variation_facts malformed_amount
        pushResult_def incFail_def newMindAgent_def wallet1_def)
qed

section \<open>Properties of the task pool\<close>

lemma badKey_throws:
  "processWallet_claim badKey w a = (Inl InvalidArgument, a, [])"
  by (simp add: processWallet_claim_def badKey_def eligibleWallet_def)

lemma noData_claim:
  "processWallet_claim noData wallet1 newMindAgent =
     (Inr (),
      \<lparr>successCount = 0, failCount = 1,
       results = [\<lparr>address = ''0x01'', amount = ''0'', status = Some ''no_eligibility''\<rparr>],
       totalAmount = 0, maxRetries = 5\<rparr>,
      [Request 0 (Some 15000)])"
proof -
  have "checkEligibilityWithRetry newMindAgent (Some 15000) (simpleRequest noData)
       = (Inr okResponse, [Request 0 (Some 15000)])"
    by (simp add: variation_facts first_answer okResponse_def)
  then show ?thesis
    by (simp add: processWallet_claim_def claimTry_def variation_facts okResponse_def
        claimable_def pushResult_def incFail_def newMindAgent_def wallet1_def)
qed

text \<open>
  The pool in general, for the claim script. The invariant holds at the start and is
  kept by every move; every move lowers the work left, and a pool that has not drained
  can move. So every schedule is finite, a complete run exists, and at the end of every
  complete run the records are those of the wallets for which \<^verbatim>\<open>processWallet\<close> returned,
  one each: the cursor hands out every index once. \<^verbatim>\<open>processWallet\<close> returns for a
  wallet when both constructors succeed and the \<^verbatim>\<open>try\<close> block does not throw
  \<^verbatim>\<open>undefined\<close> or \<^verbatim>\<open>null\<close>; whether it does depends on the agent only through
  \<^verbatim>\<open>maxRetries\<close>, which nothing changes.
\<close>

lemma runningIndices_append [simp]:
  "runningIndices (ts @ us) = runningIndices ts @ runningIndices us"
  by (induction ts rule: runningIndices.induct) simp_all

lemma runningIndices_update:
  "j < length ts \<Longrightarrow>
   mset (runningIndices (ts[j := t])) + mset (runningIndices [ts ! j])
     = mset (runningIndices ts) + mset (runningIndices [t])"
proof (induction ts arbitrary: j)
  case Nil
  then show ?case by simp
next
  case (Cons u us)
  show ?case
  proof (cases j)
    case 0
    then show ?thesis by (cases u; cases t) simp_all
  next
    case (Suc k)
    with Cons.prems have k: "k < length us" by simp
    from Cons.IH [OF k] Suc show ?thesis
      by (cases u) (simp_all add: ac_simps)
  qed
qed

lemma runningIndices_all_Returned:
  "list_all (\<lambda>t. t = Returned) ts \<Longrightarrow> runningIndices ts = []"
  by (induction ts) simp_all

lemma claimTry_fst:
  "maxRetries a = maxRetries b \<Longrightarrow> fst (claimTry env w a) = fst (claimTry env w b)"
  by (simp add: claimTry_def checkEligibilityWithRetry_def Let_def
      split: sum.splits option.splits prod.splits)

lemma processWallet_claim_fst:
  "fst (processWallet_claim env w a) =
     (case new_RequestManager env of
        Inl e \<Rightarrow> Inl e
      | Inr _ \<Rightarrow>
          (case new_Wallet env of
             Inl e \<Rightarrow> Inl e
           | Inr _ \<Rightarrow>
               (case fst (claimTry env w a) of
                  Inl e \<Rightarrow> if nullish e then Inl TypeError else Inr ()
                | Inr _ \<Rightarrow> Inr ())))"
  by (simp add: processWallet_claim_def split: sum.splits prod.splits)

lemma processWallet_claim_fst_cong:
  "maxRetries a = maxRetries b
   \<Longrightarrow> fst (processWallet_claim env w a) = fst (processWallet_claim env w b)"
  using claimTry_fst [where a = a and b = b and env = env and w = w]
  by (simp add: processWallet_claim_fst split: sum.splits)

lemma recorded_iff:
  "recorded env w \<longleftrightarrow>
     constructs env \<and> (\<forall>e. fst (claimTry env w newMindAgent) = Inl e \<longrightarrow> \<not> nullish e)"
  by (auto simp: recorded_def constructs_def processWallet_claim_fst split: sum.splits)

lemma recorded_agent:
  "maxRetries a = 5 \<Longrightarrow> recorded env w \<longleftrightarrow> fst (processWallet_claim env w a) = Inr ()"
  using processWallet_claim_fst_cong [where a = a and b = newMindAgent and env = env and w = w]
  by (simp add: recorded_def newMindAgent_def)

lemma processWallet_claim_settles:
  "fst (processWallet_claim env w a) = Inr () \<Longrightarrow>
     \<exists>r. address r = add w
       \<and> results (fst (snd (processWallet_claim env w a))) = results a @ [r]
       \<and> successCount (fst (snd (processWallet_claim env w a)))
          + failCount (fst (snd (processWallet_claim env w a))) = successCount a + failCount a + 1"
  "fst (processWallet_claim env w a) \<noteq> Inr () \<Longrightarrow> fst (snd (processWallet_claim env w a)) = a"
  "maxRetries (fst (snd (processWallet_claim env w a))) = maxRetries a"
proof -
  obtain x a' tr where p: "processWallet_claim env w a = (x, a', tr)"
    by (cases "processWallet_claim env w a") auto
  note s = processWallet_claim_shape [where env = env and w = w and a = a]
  show "fst (processWallet_claim env w a) = Inr () \<Longrightarrow>
     \<exists>r. address r = add w
       \<and> results (fst (snd (processWallet_claim env w a))) = results a @ [r]
       \<and> successCount (fst (snd (processWallet_claim env w a)))
          + failCount (fst (snd (processWallet_claim env w a))) = successCount a + failCount a + 1"
    using s p by simp
  show "fst (processWallet_claim env w a) \<noteq> Inr () \<Longrightarrow> fst (snd (processWallet_claim env w a)) = a"
    using s p by (cases x) simp_all
  show "maxRetries (fst (snd (processWallet_claim env w a))) = maxRetries a"
    using s p by (cases x) simp_all
qed


lemma poolInv_Launch:
  assumes inv: "poolInv env wallets limit p settled"
    and st: "poolStep processWallet_claim env wallets limit Launch p = Some p'"
  shows "poolInv env wallets limit p' settled"
proof -
  from st have lt: "launched p < min limit (length wallets)"
    by (simp split: if_splits)
  show ?thesis
  proof (cases "length wallets \<le> currentIndex p")
    case True
    with st lt have p': "p' = p\<lparr>launched := launched p + 1, runningTasks := runningTasks p @ [Returned]\<rparr>"
      by (simp add: processOne_def)
    from inv True have "currentIndex p = length wallets"
      by (simp add: poolInv_def)
    with inv lt show ?thesis
      by (simp add: poolInv_def p')
  next
    case False
    with st lt have p': "p' = p\<lparr>currentIndex := currentIndex p + 1, launched := launched p + 1,
        runningTasks := runningTasks p @ [Running (currentIndex p)]\<rparr>"
      by (simp add: processOne_def)
    from inv False have "Returned \<notin> set (runningTasks p)"
      by (auto simp: poolInv_def)
    with inv lt False show ?thesis
      by (simp add: poolInv_def p')
  qed
qed

lemma poolInv_Settle:
  assumes inv: "poolInv env wallets limit p settled"
    and st: "poolStep processWallet_claim env wallets limit (Settle j) p = Some p'"
  shows "\<exists>i. poolInv env wallets limit p' (settled + {#i#})"
proof -
  from st obtain i where j: "j < length (runningTasks p)" and r: "runningTasks p ! j = Running i"
    and p': "p' = p\<lparr>agent := fst (snd (processWallet_claim (env i) (wallets ! i) (agent p))),
        runningTasks := (runningTasks p)[j := Cooling]\<rparr>"
    by (auto split: if_splits task.splits)
  let ?a' = "fst (snd (processWallet_claim (env i) (wallets ! i) (agent p)))"
  from runningIndices_update [OF j, of Cooling] r
  have run: "mset (runningIndices (runningTasks p)) =
      mset (runningIndices ((runningTasks p)[j := Cooling])) + {#i#}"
    by simp
  have ret: "Returned \<in> set ((runningTasks p)[j := Cooling]) \<Longrightarrow> Returned \<in> set (runningTasks p)"
    using set_update_subset_insert [of "runningTasks p" j Cooling] by auto
  from inv have mr: "maxRetries (agent p) = 5"
    by (simp add: poolInv_def)
  note ra = recorded_agent [OF mr, where env = "env i" and w = "wallets ! i"]
  have mr': "maxRetries ?a' = 5"
    using mr by (simp add: processWallet_claim_settles(3))
  have rec: "mset (map address (results ?a')) = settledRecords env wallets (settled + {#i#})
      \<and> successCount ?a' + failCount ?a' = size (settledRecords env wallets (settled + {#i#}))"
  proof (cases "recorded (env i) (wallets ! i)")
    case True
    with ra have "fst (processWallet_claim (env i) (wallets ! i) (agent p)) = Inr ()"
      by simp
    from processWallet_claim_settles(1) [OF this]
    obtain r where "address r = add (wallets ! i)" "results ?a' = results (agent p) @ [r]"
      "successCount ?a' + failCount ?a' = successCount (agent p) + failCount (agent p) + 1"
      by blast
    with inv True show ?thesis
      by (simp add: poolInv_def settledRecords_def)
  next
    case False
    with ra have "fst (processWallet_claim (env i) (wallets ! i) (agent p)) \<noteq> Inr ()"
      by simp
    from processWallet_claim_settles(2) [OF this] inv False
    show ?thesis
      by (simp add: poolInv_def settledRecords_def)
  qed
  from inv run ret rec mr' have "poolInv env wallets limit p' (settled + {#i#})"
    by (auto simp: poolInv_def p')
  then show ?thesis ..
qed

lemma poolInv_Wake:
  assumes inv: "poolInv env wallets limit p settled"
    and st: "poolStep processWallet_claim env wallets limit (Wake j) p = Some p'"
  shows "poolInv env wallets limit p' settled"
proof -
  from st have j: "j < length (runningTasks p)" and c: "runningTasks p ! j = Cooling"
    by (auto split: if_splits task.splits)
  show ?thesis
  proof (cases "currentIndex p < length wallets")
    case True
    with st j c have p': "p' = p\<lparr>currentIndex := currentIndex p + 1,
        runningTasks := (runningTasks p)[j := Running (currentIndex p)]\<rparr>"
      by (simp add: processOne_def)
    from runningIndices_update [OF j, of "Running (currentIndex p)"] c
    have run: "mset (runningIndices ((runningTasks p)[j := Running (currentIndex p)])) =
        mset (runningIndices (runningTasks p)) + {#currentIndex p#}"
      by simp
    from inv True have "Returned \<notin> set (runningTasks p)"
      by (auto simp: poolInv_def)
    then have ret: "Returned \<notin> set ((runningTasks p)[j := Running (currentIndex p)])"
      using set_update_subset_insert [of "runningTasks p" j "Running (currentIndex p)"] by auto
    from inv True run ret show ?thesis
      by (simp add: poolInv_def p')
  next
    case False
    with st j c have p': "p' = p\<lparr>runningTasks := (runningTasks p)[j := Returned]\<rparr>"
      by simp
    from runningIndices_update [OF j, of Returned] c
    have run: "mset (runningIndices ((runningTasks p)[j := Returned])) =
        mset (runningIndices (runningTasks p))"
      by simp
    from inv False have "currentIndex p = length wallets"
      by (simp add: poolInv_def)
    with inv run show ?thesis
      by (simp add: poolInv_def p')
  qed
qed

lemma poolInv_step:
  "poolInv env wallets limit p settled
   \<Longrightarrow> poolStep processWallet_claim env wallets limit m p = Some p'
   \<Longrightarrow> \<exists>settled'. poolInv env wallets limit p' settled'"
  by (cases m) (blast dest: poolInv_Launch poolInv_Settle poolInv_Wake)+

lemma poolInv_run:
  "poolInv env wallets limit p settled
   \<Longrightarrow> poolRun processWallet_claim env wallets limit ms p = Some p'
   \<Longrightarrow> \<exists>settled'. poolInv env wallets limit p' settled'"
proof (induction ms arbitrary: p settled)
  case Nil
  then show ?case by auto
next
  case (Cons m ms)
  from Cons.prems(2) obtain q where q: "poolStep processWallet_claim env wallets limit m p = Some q"
    and r: "poolRun processWallet_claim env wallets limit ms q = Some p'"
    by (auto split: option.splits)
  from poolInv_step [OF Cons.prems(1) q] obtain s where "poolInv env wallets limit q s" ..
  from Cons.IH [OF this r] show ?case .
qed

lemma poolInv_new: "poolInv env wallets limit (newPool newMindAgent) {#}"
  by (simp add: poolInv_def newPool_def newMindAgent_def settledRecords_def)

lemma poolInv_drained:
  assumes inv: "poolInv env wallets limit p settled" and d: "drained wallets limit p"
    and l: "1 \<le> limit"
  shows "settled = mset [0..<length wallets]"
proof -
  from d have all: "list_all (\<lambda>t. t = Returned) (runningTasks p)"
    and la: "launched p = min limit (length wallets)"
    by (simp_all add: drained_def)
  have c: "currentIndex p = length wallets"
  proof (cases "wallets = []")
    case True
    with inv show ?thesis by (simp add: poolInv_def)
  next
    case False
    with l la inv have "runningTasks p \<noteq> []"
      by (auto simp: poolInv_def min_def split: if_splits)
    then obtain t ts where ts: "runningTasks p = t # ts"
      by (cases "runningTasks p") auto
    with all have "Returned \<in> set (runningTasks p)" by simp
    with inv show ?thesis by (simp add: poolInv_def)
  qed
  from inv runningIndices_all_Returned [OF all] c show ?thesis
    by (simp add: poolInv_def)
qed

lemma processWallets_claim_records:
  assumes run: "processWallets processWallet_claim env wallets limit schedule = Some a"
    and l: "1 \<le> limit"
  shows "mset (map address (results a)) =
      mset (map (\<lambda>i. add (wallets ! i)) (filter (\<lambda>i. recorded (env i) (wallets ! i)) [0..<length wallets]))"
    and "length (results a) = length (filter (\<lambda>i. recorded (env i) (wallets ! i)) [0..<length wallets])"
    and "successCount a + failCount a = length (results a)"
proof -
  from run obtain p where p: "poolRun processWallet_claim env wallets limit schedule (newPool newMindAgent) = Some p"
    and d: "drained wallets limit p" and a: "a = agent p"
    by (auto simp: processWallets_def split: option.splits if_splits)
  from poolInv_run [OF poolInv_new p] obtain settled where inv: "poolInv env wallets limit p settled" ..
  from poolInv_drained [OF inv d l] have s: "settled = mset [0..<length wallets]" .
  from inv s a show m: "mset (map address (results a)) =
      mset (map (\<lambda>i. add (wallets ! i)) (filter (\<lambda>i. recorded (env i) (wallets ! i)) [0..<length wallets]))"
    by (simp add: poolInv_def settledRecords_def)
  from m have "size (mset (map address (results a))) =
      size (mset (map (\<lambda>i. add (wallets ! i)) (filter (\<lambda>i. recorded (env i) (wallets ! i)) [0..<length wallets])))"
    by simp
  then show n: "length (results a) = length (filter (\<lambda>i. recorded (env i) (wallets ! i)) [0..<length wallets])"
    by (simp only: size_mset length_map)
  from inv s a have "successCount a + failCount a =
      size (mset (map (\<lambda>i. add (wallets ! i)) (filter (\<lambda>i. recorded (env i) (wallets ! i)) [0..<length wallets])))"
    by (simp add: poolInv_def settledRecords_def)
  with n show "successCount a + failCount a = length (results a)"
    by (simp only: size_mset length_map)
qed


lemma taskWork_update:
  "j < length ts \<Longrightarrow>
   sum_list (map taskWork (ts[j := t])) + taskWork (ts ! j) = sum_list (map taskWork ts) + taskWork t"
proof (induction ts arbitrary: j)
  case Nil
  then show ?case by simp
next
  case (Cons u us)
  then show ?case by (cases j) (simp_all add: add.assoc)
qed

lemma poolStep_work:
  assumes "poolStep pw env wallets limit m p = Some p'"
  shows "poolWork wallets limit p' < poolWork wallets limit p"
proof (cases m)
  case Launch
  with assms show ?thesis
    by (auto simp: poolWork_def processOne_def split: if_splits)
next
  case (Settle j)
  with assms obtain i where j: "j < length (runningTasks p)" and r: "runningTasks p ! j = Running i"
    and p': "p' = p\<lparr>agent := fst (snd (pw (env i) (wallets ! i) (agent p))),
        runningTasks := (runningTasks p)[j := Cooling]\<rparr>"
    by (auto split: if_splits task.splits)
  from taskWork_update [OF j, of Cooling] r show ?thesis
    by (simp add: poolWork_def p')
next
  case (Wake j)
  with assms have j: "j < length (runningTasks p)" and c: "runningTasks p ! j = Cooling"
    by (auto split: if_splits task.splits)
  show ?thesis
  proof (cases "currentIndex p < length wallets")
    case True
    with assms Wake j c have p': "p' = p\<lparr>currentIndex := currentIndex p + 1,
        runningTasks := (runningTasks p)[j := Running (currentIndex p)]\<rparr>"
      by (simp add: processOne_def)
    from taskWork_update [OF j, of "Running (currentIndex p)"] c True show ?thesis
      by (simp add: poolWork_def p')
  next
    case False
    with assms Wake j c have p': "p' = p\<lparr>runningTasks := (runningTasks p)[j := Returned]\<rparr>"
      by simp
    from taskWork_update [OF j, of Returned] c show ?thesis
      by (simp add: poolWork_def p')
  qed
qed

lemma poolRun_length:
  "poolRun pw env wallets limit ms p = Some p'
   \<Longrightarrow> length ms + poolWork wallets limit p' \<le> poolWork wallets limit p"
proof (induction ms arbitrary: p)
  case Nil
  then show ?case by simp
next
  case (Cons m ms)
  from Cons.prems obtain q where q: "poolStep pw env wallets limit m p = Some q"
    and r: "poolRun pw env wallets limit ms q = Some p'"
    by (auto split: option.splits)
  from Cons.IH [OF r] poolStep_work [OF q] show ?case by simp
qed

lemma pool_progress:
  assumes la: "launched p \<le> min limit (length wallets)" and nd: "\<not> drained wallets limit p"
  shows "\<exists>m p'. poolStep pw env wallets limit m p = Some p'"
proof (cases "launched p < min limit (length wallets)")
  case True
  then have "\<exists>p'. poolStep pw env wallets limit Launch p = Some p'"
    by (simp split: prod.splits)
  then show ?thesis by blast
next
  case False
  with la have "launched p = min limit (length wallets)"
    by linarith
  with nd have "\<not> list_all (\<lambda>t. t = Returned) (runningTasks p)"
    by (simp add: drained_def)
  then obtain j where j: "j < length (runningTasks p)" and n: "runningTasks p ! j \<noteq> Returned"
    by (auto simp: list_all_length)
  show ?thesis
  proof (cases "runningTasks p ! j")
    case (Running i)
    with j have "\<exists>p'. poolStep pw env wallets limit (Settle j) p = Some p'" by simp
    then show ?thesis by blast
  next
    case Cooling
    with j have "\<exists>p'. poolStep pw env wallets limit (Wake j) p = Some p'"
      by (simp split: prod.splits)
    then show ?thesis by blast
  next
    case Returned
    with n show ?thesis by simp
  qed
qed

lemma pool_completes:
  "poolInv env wallets limit p settled
   \<Longrightarrow> \<exists>ms p'. poolRun processWallet_claim env wallets limit ms p = Some p' \<and> drained wallets limit p'"
proof (induction "poolWork wallets limit p" arbitrary: p settled rule: less_induct)
  case less
  show ?case
  proof (cases "drained wallets limit p")
    case True
    then have "poolRun processWallet_claim env wallets limit [] p = Some p \<and> drained wallets limit p"
      by simp
    then show ?thesis by blast
  next
    case False
    from less.prems have "launched p \<le> min limit (length wallets)"
      by (simp add: poolInv_def)
    from pool_progress [OF this False] obtain m q
      where q: "poolStep processWallet_claim env wallets limit m p = Some q" by blast
    from poolInv_step [OF less.prems q] obtain s where s: "poolInv env wallets limit q s" ..
    from less.hyps [OF poolStep_work [OF q] s] obtain ms p'
      where "poolRun processWallet_claim env wallets limit ms q = Some p'" "drained wallets limit p'"
      by blast
    with q have "poolRun processWallet_claim env wallets limit (m # ms) p = Some p' \<and> drained wallets limit p'"
      by simp
    then show ?thesis by blast
  qed
qed

lemma processWallets_claim_returns:
  "\<exists>schedule a. processWallets processWallet_claim env wallets limit schedule = Some a"
proof -
  from pool_completes [OF poolInv_new] obtain ms p'
    where "poolRun processWallet_claim env wallets limit ms (newPool newMindAgent) = Some p'"
      "drained wallets limit p'"
    by blast
  then have "processWallets processWallet_claim env wallets limit ms = Some (agent p')"
    by (simp add: processWallets_def)
  then show ?thesis by blast
qed

lemma processWallets_schedule_length:
  assumes "processWallets pw env wallets limit schedule = Some a"
  shows "length schedule \<le> 6 * length wallets"
proof -
  from assms obtain p where "poolRun pw env wallets limit schedule (newPool newMindAgent) = Some p"
    by (auto simp: processWallets_def split: option.splits)
  from poolRun_length [OF this] show ?thesis
    by (simp add: poolWork_def newPool_def)
qed

text \<open>
  Claim C1, evaluated. Two wallets, concurrency 2, the claim script. The constructor of
  the second wallet throws before the \<^verbatim>\<open>try\<close> of \<^verbatim>\<open>processWallet\<close>; \<^verbatim>\<open>processOne\<close> catches
  and logs the error, and nothing is pushed. The pool drains with one record for two
  wallets, under either order of the tasks.
\<close>

theorem pool_drops_wallet_with_bad_key:
  "processWallets processWallet_claim secondKeyBad [wallet1, wallet2] 2
     [Launch, Launch, Settle 0, Settle 1, Wake 0, Wake 1] =
   Some \<lparr>successCount = 0, failCount = 1,
         results = [\<lparr>address = ''0x01'', amount = ''0'', status = Some ''no_eligibility''\<rparr>],
         totalAmount = 0, maxRetries = 5\<rparr>
   \<and> processWallets processWallet_claim secondKeyBad [wallet1, wallet2] 2
     [Launch, Settle 0, Launch, Settle 1, Wake 1, Wake 0] =
   Some \<lparr>successCount = 0, failCount = 1,
         results = [\<lparr>address = ''0x01'', amount = ''0'', status = Some ''no_eligibility''\<rparr>],
         totalAmount = 0, maxRetries = 5\<rparr>"
  by (simp add: processWallets_def newPool_def processOne_def drained_def secondKeyBad_def
      badKey_throws noData_claim)

end
